theory Spec2Isabelle
  imports Complex_Main
begin

section \<open>Conventions of the embedding\<close>

text \<open>
  The file \<^verbatim>\<open>loadsolve.c\<close> holds three PETSc programs: a linear-system loader, the
  p-Laplacian Q1 finite-element code (\<^verbatim>\<open>plap\<close>) and the ice-sheet finite-volume-element
  code (\<^verbatim>\<open>ice\<close>). The last two are embedded here.

  \<^item> A C \<^verbatim>\<open>double\<close> is a \<^typ>\<open>real\<close>: all statements are about exact arithmetic.
  \<^item> A C \<^verbatim>\<open>int\<close> is an \<^typ>\<open>int\<close>; grid indices are far from the 32-bit range.
  \<^item> A ghosted array \<^verbatim>\<open>double **a\<close>, read as \<^verbatim>\<open>a[j][i]\<close>, is a function from the row index
    and the column index to the entry.
  \<^item> The arrays a call-back can reach are the fields of a record that is passed in and
    returned updated, together with the C return code (\<^verbatim>\<open>0\<close> is success).
  \<^item> Calls into the PETSc or MPI runtime that only hand out work storage or communicate
    are represented by their effect on success. The option-database calls keep their
    return code, since a failing option call is a configuration error.
\<close>

type_synonym PetscErrorCode = int

type_synonym grid = "int \<Rightarrow> int \<Rightarrow> real"

text \<open>The assignment \<^verbatim>\<open>a[j][i] = v\<close>.\<close>

definition put :: "grid \<Rightarrow> int \<Rightarrow> int \<Rightarrow> real \<Rightarrow> grid" where
  "put a j i v = a(j := (a j)(i := v))"

text \<open>
  \<^verbatim>\<open>PetscPowScalar\<close> and \<^verbatim>\<open>PetscPowReal\<close> are the C function \<^verbatim>\<open>pow\<close>. The bases in this
  program are sums of squares, absolute values and positive constants. C returns 1 for
  exponent 0, also at base 0, where the real power of HOL is 0. At base 0 with a negative
  exponent C returns infinity, which no real number stands for; the value here is 0.
\<close>

definition PetscPowReal :: "real \<Rightarrow> real \<Rightarrow> real" where
  "PetscPowReal b e = (if e = 0 then 1 else b powr e)"

section \<open>The p-Laplacian program\<close>

subsection \<open>Manufactured data\<close>

definition FRHS :: "real \<Rightarrow> real \<Rightarrow> real \<Rightarrow> real \<Rightarrow> real" where
  "FRHS x y p alpha =
     (let xs = x + alpha; ys = y + alpha;
          XX = xs * xs; YY = ys * ys; D2 = XX + YY;
          gamma1 = 1 / xs + xs / D2;
          gamma2 = 1 / ys + ys / D2;
          C = PetscPowReal (XX * YY * D2) ((p - 2) / 2)
      in - (p - 2) * C * (gamma1 * (x + alpha) * YY + gamma2 * XX * (y + alpha))
         - C * D2)"

definition UExact :: "real \<Rightarrow> real \<Rightarrow> real \<Rightarrow> real" where
  "UExact x y alpha = 0.5 * (x + alpha) * (x + alpha) * (y + alpha) * (y + alpha)"

subsection \<open>Reference element and quadrature tables\<close>

definition xiL :: "real list" where
  "xiL = [1, -1, -1, 1]"

definition etaL :: "real list" where
  "etaL = [1, 1, -1, -1]"

definition chi :: "nat \<Rightarrow> real \<Rightarrow> real \<Rightarrow> real" where
  "chi l xi eta = 0.25 * (1 + xiL ! l * xi) * (1 + etaL ! l * eta)"

text \<open>The loop \<^verbatim>\<open>for (L=0; L<4; L++) sum += v[L] * chi(L,xi,eta)\<close>.\<close>

definition eval :: "real list \<Rightarrow> real \<Rightarrow> real \<Rightarrow> real" where
  "eval v xi eta = fold (\<lambda>l sum. sum + v ! l * chi l xi eta) [0..<4] 0"

record gradRef =
  xi :: real
  eta :: real

definition dchi :: "nat \<Rightarrow> real \<Rightarrow> real \<Rightarrow> gradRef" where
  "dchi l xi' eta' =
     \<lparr> xi = 0.25 * xiL ! l * (1 + etaL ! l * eta'),
       eta = 0.25 * etaL ! l * (1 + xiL ! l * xi') \<rparr>"

definition deval :: "real list \<Rightarrow> real \<Rightarrow> real \<Rightarrow> gradRef" where
  "deval v xi' eta' =
     fold (\<lambda>l sum. let tmp = dchi l xi' eta'
                    in \<lparr> xi = xi sum + v ! l * xi tmp, eta = eta sum + v ! l * eta tmp \<rparr>)
          [0..<4] \<lparr> xi = 0, eta = 0 \<rparr>"

text \<open>
  Row \<^verbatim>\<open>n-1\<close> of \<^verbatim>\<open>zq\<close> and \<^verbatim>\<open>wq\<close> holds the \<^verbatim>\<open>n\<close> Gauss points and weights; the source pads
  the rows with \<^verbatim>\<open>NAN\<close>, which the loops \<^verbatim>\<open>r < n\<close>, \<^verbatim>\<open>s < n\<close> never read.
\<close>

definition zq :: "real list list" where
  "zq = [[0],
         [- 0.577350269189626, 0.577350269189626],
         [- 0.774596669241483, 0, 0.774596669241483]]"

definition wq :: "real list list" where
  "wq = [[2],
         [1, 1],
         [0.555555555555556, 0.888888888888889, 0.555555555555556]]"

subsection \<open>Grid description and tools\<close>

record DMDALocalInfo =
  mx :: int
  my :: int
  xs :: int
  ys :: int
  xm :: int
  ym :: int

definition GradInnerProd :: "DMDALocalInfo \<Rightarrow> gradRef \<Rightarrow> gradRef \<Rightarrow> real" where
  "GradInnerProd info du dv =
     (let hx = 1 / real_of_int (mx info - 1); hy = 1 / real_of_int (my info - 1);
          cx = 4 / (hx * hx); cy = 4 / (hy * hy)
      in cx * xi du * xi dv + cy * eta du * eta dv)"

definition GradPow :: "DMDALocalInfo \<Rightarrow> gradRef \<Rightarrow> real \<Rightarrow> real \<Rightarrow> real" where
  "GradPow info du P eps = PetscPowReal (GradInnerProd info du du + eps * eps) (P / 2)"

text \<open>
  \<^verbatim>\<open>BoundaryG\<close> is called by the source but defined nowhere in it: it is a parameter of
  every function that calls it. \<^verbatim>\<open>GetUorGElement\<close> fills the caller's array \<^verbatim>\<open>u[4]\<close>, which
  is the list returned here.
\<close>

definition GetUorGElement ::
  "(real \<Rightarrow> real \<Rightarrow> real \<Rightarrow> real) \<Rightarrow> DMDALocalInfo \<Rightarrow> int \<Rightarrow> int \<Rightarrow> grid \<Rightarrow> real \<Rightarrow> real list" where
  "GetUorGElement BoundaryG info i j au alpha =
     (let hx = 1 / real_of_int (mx info - 1); hy = 1 / real_of_int (my info - 1);
          x = real_of_int i * hx; y = real_of_int j * hy
      in [ if i = mx info - 1 \<or> j = my info - 1 then BoundaryG x y alpha else au j i,
           if i - 1 = 0 \<or> j = my info - 1 then BoundaryG (x - hx) y alpha else au j (i - 1),
           if i - 1 = 0 \<or> j - 1 = 0 then BoundaryG (x - hx) (y - hy) alpha else au (j - 1) (i - 1),
           if i = mx info - 1 \<or> j - 1 = 0 then BoundaryG x (y - hy) alpha else au (j - 1) i ])"

subsection \<open>Configuration\<close>

text \<open>
  The functions read \<^verbatim>\<open>user->alpha\<close>, a field the declaration of \<^verbatim>\<open>PLapCtx\<close> in the source
  lacks; it is a field here. The handle \<^verbatim>\<open>da\<close> is opaque and left out.
\<close>

record PLapCtx =
  p :: real
  eps :: real
  quaddegree :: int
  alpha :: real

text \<open>
  What the option database answers to one \<^verbatim>\<open>PetscOptionsReal\<close>, \<^verbatim>\<open>PetscOptionsInt\<close> or
  \<^verbatim>\<open>PetscOptionsBool\<close> call: the return code and, when the option is set, its value.
  The variable keeps its current value when the option is not set.
\<close>

type_synonym 'a PetscOption = "PetscErrorCode \<times> 'a option"

definition PetscOptionsGet :: "'a PetscOption \<Rightarrow> 'a \<Rightarrow> PetscErrorCode \<times> 'a" where
  "PetscOptionsGet c current = (fst c, case snd c of None \<Rightarrow> current | Some v \<Rightarrow> v)"

record plap_options =
  plap_Begin :: PetscErrorCode
  plap_p :: "real PetscOption"
  plap_eps :: "real PetscOption"
  plap_quaddegree :: "int PetscOption"
  plap_End :: PetscErrorCode

definition ConfigureCtx :: "plap_options \<Rightarrow> PLapCtx \<Rightarrow> PetscErrorCode \<times> PLapCtx" where
  "ConfigureCtx opts user0 =
     (let user1 = user0\<lparr> p := 4, eps := 0, quaddegree := 2 \<rparr> in
      if plap_Begin opts \<noteq> 0 then (plap_Begin opts, user1) else
      let (ierr, v) = PetscOptionsGet (plap_p opts) (p user1); user2 = user1\<lparr> p := v \<rparr> in
      if ierr \<noteq> 0 then (ierr, user2) else
      if p user2 < 1 then (1, user2) else
      let (ierr, v) = PetscOptionsGet (plap_eps opts) (eps user2); user3 = user2\<lparr> eps := v \<rparr> in
      if ierr \<noteq> 0 then (ierr, user3) else
      let (ierr, v) = PetscOptionsGet (plap_quaddegree opts) (quaddegree user3);
          user4 = user3\<lparr> quaddegree := v \<rparr> in
      if ierr \<noteq> 0 then (ierr, user4) else
      if quaddegree user4 < 1 \<or> quaddegree user4 > 3 then (2, user4) else
      if plap_End opts \<noteq> 0 then (plap_End opts, user4) else
      (0, user4))"

subsection \<open>The arrays of one call-back\<close>

text \<open>
  \<^verbatim>\<open>au\<close> is the ghosted input iterate, \<^verbatim>\<open>FF\<close> the residual array and \<^verbatim>\<open>obj\<close> the cell
  that \<^verbatim>\<open>double *obj\<close> points to. The runtime hands distinct arrays to a call-back.
\<close>

record plap_mem =
  au :: grid
  FF :: grid
  obj :: real

text \<open>The four values \<^verbatim>\<open>f[0..3]\<close> of the right-hand side at the corners of element \<^verbatim>\<open>(i,j)\<close>.\<close>

definition FRHS_element :: "DMDALocalInfo \<Rightarrow> PLapCtx \<Rightarrow> int \<Rightarrow> int \<Rightarrow> real list" where
  "FRHS_element info user i j =
     (let hx = 1 / real_of_int (mx info - 1); hy = 1 / real_of_int (my info - 1);
          x = real_of_int i * hx; y = real_of_int j * hy
      in [ FRHS x y (p user) (alpha user),
           FRHS (x - hx) y (p user) (alpha user),
           FRHS (x - hx) (y - hy) (p user) (alpha user),
           FRHS x (y - hy) (p user) (alpha user) ])"

subsection \<open>Objective\<close>

definition ObjBoundary ::
  "(real \<Rightarrow> real \<Rightarrow> real \<Rightarrow> real) \<Rightarrow> DMDALocalInfo \<Rightarrow> real \<Rightarrow> real \<Rightarrow> real \<Rightarrow> real \<Rightarrow> real" where
  "ObjBoundary BoundaryG info x y u a =
     (let g = BoundaryG x y a in 0.5 * (u - g) * (u - g))"

definition ObjIntegrand ::
  "DMDALocalInfo \<Rightarrow> real list \<Rightarrow> real list \<Rightarrow> real \<Rightarrow> real \<Rightarrow> real \<Rightarrow> real \<Rightarrow> real" where
  "ObjIntegrand info f u xi' eta' P e =
     (let du = deval u xi' eta'
      in GradPow info du P e / P - eval f xi' eta' * eval u xi' eta')"

text \<open>The quadrature loops over \<^verbatim>\<open>r\<close> and \<^verbatim>\<open>s\<close> of one element, adding to \<^verbatim>\<open>lobj\<close>.\<close>

definition FormObjectiveLocal_quad ::
  "DMDALocalInfo \<Rightarrow> PLapCtx \<Rightarrow> real list \<Rightarrow> real list \<Rightarrow> real \<Rightarrow> real" where
  "FormObjectiveLocal_quad info user f u lobj =
     (let n = quaddegree user in
      fold (\<lambda>r. fold (\<lambda>s acc. acc + wq ! nat (n - 1) ! nat r * wq ! nat (n - 1) ! nat s
                               * ObjIntegrand info f u (zq ! nat (n - 1) ! nat r)
                                   (zq ! nat (n - 1) ! nat s) (p user) (eps user))
                      [0 .. n - 1])
           [0 .. n - 1] lobj)"

text \<open>
  \<^verbatim>\<open>others\<close> is the sum of the values \<^verbatim>\<open>lobj\<close> of the other processes, which
  \<^verbatim>\<open>MPI_Allreduce\<close> adds to the local one.
\<close>

definition FormObjectiveLocal ::
  "(real \<Rightarrow> real \<Rightarrow> real \<Rightarrow> real) \<Rightarrow> DMDALocalInfo \<Rightarrow> PLapCtx \<Rightarrow> real \<Rightarrow> plap_mem
     \<Rightarrow> PetscErrorCode \<times> plap_mem" where
  "FormObjectiveLocal BoundaryG info user others m =
     (let hx = 1 / real_of_int (mx info - 1); hy = 1 / real_of_int (my info - 1);
          lobj0 = fold (\<lambda>j. fold (\<lambda>i. FormObjectiveLocal_quad info user
                                        (FRHS_element info user i j)
                                        (GetUorGElement BoundaryG info i j (au m) (alpha user)))
                                 [xs info + 1 .. xs info + xm info - 1])
                       [ys info + 1 .. ys info + ym info - 1] 0;
          lobj1 = lobj0 * (0.25 * hx * hy);
          lobj2 = (if ys info = 0
                   then fold (\<lambda>i acc. acc + ObjBoundary BoundaryG info (real_of_int i * hx) 0
                                              (au m 0 i) (alpha user))
                             [xs info .. xs info + xm info - 1] lobj1
                   else lobj1);
          lobj3 = (if ys info + ym info = my info
                   then fold (\<lambda>i acc. acc + ObjBoundary BoundaryG info (real_of_int i * hx) 1
                                              (au m (my info - 1) i) (alpha user))
                             [xs info .. xs info + xm info - 1] lobj2
                   else lobj2);
          jS = (if ys info = 0 then 1 else 0);
          jE = (if ys info + ym info = my info then my info - 1 else my info);
          lobj4 = (if xs info = 0
                   then fold (\<lambda>j acc. acc + ObjBoundary BoundaryG info 0 (real_of_int j * hy)
                                              (au m j 0) (alpha user))
                             [jS .. jE - 1] lobj3
                   else lobj3);
          lobj5 = (if xs info + xm info = mx info
                   then fold (\<lambda>j acc. acc + ObjBoundary BoundaryG info 1 (real_of_int j * hy)
                                              (au m j (mx info - 1)) (alpha user))
                             [jS .. jE - 1] lobj4
                   else lobj4)
      in (0, m\<lparr> obj := lobj5 + others \<rparr>))"

subsection \<open>Residual\<close>

definition FunIntegrand ::
  "DMDALocalInfo \<Rightarrow> nat \<Rightarrow> real list \<Rightarrow> real list \<Rightarrow> real \<Rightarrow> real \<Rightarrow> real \<Rightarrow> real \<Rightarrow> real" where
  "FunIntegrand info l f u xi' eta' P e =
     (let du = deval u xi' eta'; dchiL = dchi l xi' eta'
      in GradPow info du (P - 2) e * GradInnerProd info du dchiL
         - eval f xi' eta' * chi l xi' eta')"

definition li :: "int list" where
  "li = [0, -1, -1, 0]"

definition lj :: "int list" where
  "lj = [0, 0, -1, -1]"

text \<open>The first loop nest: boundary residuals are set, the others are cleared.\<close>

definition FormFunctionLocal_clear ::
  "(real \<Rightarrow> real \<Rightarrow> real \<Rightarrow> real) \<Rightarrow> DMDALocalInfo \<Rightarrow> PLapCtx \<Rightarrow> int \<Rightarrow> int \<Rightarrow> plap_mem
     \<Rightarrow> plap_mem" where
  "FormFunctionLocal_clear BoundaryG info user j i m =
     (let hx = 1 / real_of_int (mx info - 1); hy = 1 / real_of_int (my info - 1);
          y = real_of_int j * hy
      in if i = 0 \<or> i = mx info - 1 \<or> j = 0 \<or> j = my info - 1
         then (let x = real_of_int i * hx
               in m\<lparr> FF := put (FF m) j i (au m j i - BoundaryG x y (alpha user)) \<rparr>)
         else m\<lparr> FF := put (FF m) j i 0 \<rparr>)"

text \<open>The quadrature loops over \<^verbatim>\<open>r\<close> and \<^verbatim>\<open>s\<close> for corner \<^verbatim>\<open>l\<close>, adding to \<^verbatim>\<open>FF[QQ][PP]\<close>.\<close>

definition FormFunctionLocal_quad ::
  "DMDALocalInfo \<Rightarrow> PLapCtx \<Rightarrow> nat \<Rightarrow> real list \<Rightarrow> real list \<Rightarrow> int \<Rightarrow> int \<Rightarrow> plap_mem
     \<Rightarrow> plap_mem" where
  "FormFunctionLocal_quad info user l f u PP QQ m0 =
     (let hx = 1 / real_of_int (mx info - 1); hy = 1 / real_of_int (my info - 1);
          C = 0.25 * hx * hy; n = quaddegree user in
      fold (\<lambda>r. fold (\<lambda>s m. m\<lparr> FF := put (FF m) QQ PP
                                 (FF m QQ PP
                                  + C * wq ! nat (n - 1) ! nat r * wq ! nat (n - 1) ! nat s
                                    * FunIntegrand info l f u (zq ! nat (n - 1) ! nat r)
                                        (zq ! nat (n - 1) ! nat s) (p user) (eps user)) \<rparr>)
                      [0 .. n - 1])
           [0 .. n - 1] m0)"

text \<open>The body of the loop over the corners \<^verbatim>\<open>l\<close> of element \<^verbatim>\<open>(i,j)\<close>.\<close>

definition FormFunctionLocal_corner ::
  "DMDALocalInfo \<Rightarrow> PLapCtx \<Rightarrow> int \<Rightarrow> int \<Rightarrow> real list \<Rightarrow> real list \<Rightarrow> nat \<Rightarrow> plap_mem
     \<Rightarrow> plap_mem" where
  "FormFunctionLocal_corner info user i j f u l m =
     (let PP = i + li ! l; QQ = j + lj ! l
      in if PP > 0 \<and> PP < mx info - 1 \<and> QQ > 0 \<and> QQ < my info - 1
            \<and> PP \<ge> xs info \<and> PP < xs info + xm info
            \<and> QQ \<ge> ys info \<and> QQ < ys info + ym info
         then FormFunctionLocal_quad info user l f u PP QQ m
         else m)"

text \<open>The body of the loops over the elements.\<close>

definition FormFunctionLocal_element ::
  "(real \<Rightarrow> real \<Rightarrow> real \<Rightarrow> real) \<Rightarrow> DMDALocalInfo \<Rightarrow> PLapCtx \<Rightarrow> int \<Rightarrow> int \<Rightarrow> plap_mem
     \<Rightarrow> plap_mem" where
  "FormFunctionLocal_element BoundaryG info user j i m =
     (let f = FRHS_element info user i j;
          u = GetUorGElement BoundaryG info i j (au m) (alpha user)
      in fold (FormFunctionLocal_corner info user i j f u) [0..<4] m)"

definition FormFunctionLocal ::
  "(real \<Rightarrow> real \<Rightarrow> real \<Rightarrow> real) \<Rightarrow> DMDALocalInfo \<Rightarrow> PLapCtx \<Rightarrow> plap_mem
     \<Rightarrow> PetscErrorCode \<times> plap_mem" where
  "FormFunctionLocal BoundaryG info user m0 =
     (let iS = (if xs info < 1 then 1 else xs info);
          jS = (if ys info < 1 then 1 else ys info);
          iE = (if xs info + xm info > mx info - 1 then mx info - 1 else xs info + xm info);
          jE = (if ys info + ym info > my info - 1 then my info - 1 else ys info + ym info);
          m1 = fold (\<lambda>j. fold (FormFunctionLocal_clear BoundaryG info user j)
                              [xs info .. xs info + xm info - 1])
                    [ys info .. ys info + ym info - 1] m0;
          m2 = fold (\<lambda>j. fold (FormFunctionLocal_element BoundaryG info user j) [iS .. iE])
                    [jS .. jE] m1
      in (0, m2))"

section \<open>The ice-sheet program\<close>

subsection \<open>Context and set-up\<close>

text \<open>
  \<^verbatim>\<open>CMBModel\<close> and \<^verbatim>\<open>M_CMBModel\<close> come from \<^verbatim>\<open>icecmb.h\<close>, which is not part of the source:
  the field \<^verbatim>\<open>cmb\<close> is the function that \<^verbatim>\<open>M_CMBModel(user->cmb,.)\<close> computes.
\<close>

record AppCtx =
  secpera :: real
  L :: real
  g :: real
  rho_ice :: real
  n_ice :: real
  A_ice :: real
  Gamma :: real
  D0 :: real
  eps :: real
  delta :: real
  lambda :: real
  verif :: bool
  check_admissible :: bool
  cmb :: "real \<Rightarrow> real"

definition radialcoord :: "real \<Rightarrow> real \<Rightarrow> AppCtx \<Rightarrow> real" where
  "radialcoord x y user =
     (let xc = x - L user / 2; yc = y - L user / 2 in sqrt (xc * xc + yc * yc))"

definition DomeCMB :: "real \<Rightarrow> real \<Rightarrow> AppCtx \<Rightarrow> real" where
  "DomeCMB x y user =
     (let domeR = 750000; domeH0 = 3600;
          n = n_ice user; pp = 1 / n;
          CC = Gamma user * PetscPowReal domeH0 (2 * n + 2)
                 / PetscPowReal (2 * domeR * (1 - 1 / n)) n;
          r0 = radialcoord x y user;
          r1 = (if r0 < 0.01 then 0.01 else r0);
          r = (if r1 > domeR - 0.01 then domeR - 0.01 else r1);
          s = r / domeR;
          tmp1 = PetscPowReal s pp + PetscPowReal (1 - s) pp - 1;
          tmp2 = 2 * PetscPowReal s pp + PetscPowReal (1 - s) (pp - 1) * (1 - 2 * s) - 1
      in (CC / r) * PetscPowReal tmp1 (n - 1) * tmp2)"

text \<open>The answers of the option database to the calls of \<^verbatim>\<open>main\<close>, in the order of the calls.\<close>

record ice_options =
  ice_A :: "real PetscOption"
  ice_check_admissible :: "bool PetscOption"
  ice_D0 :: "real PetscOption"
  ice_delta :: "real PetscOption"
  ice_dump :: "bool PetscOption"
  ice_eps :: "real PetscOption"
  ice_exact_init :: "bool PetscOption"
  ice_L :: "real PetscOption"
  ice_lambda :: "real PetscOption"
  ice_n :: "real PetscOption"
  ice_rho :: "real PetscOption"
  ice_verif :: "bool PetscOption"
  ice_Begin :: PetscErrorCode
  ice_End :: PetscErrorCode

text \<open>
  The start of \<^verbatim>\<open>main\<close>: the defaults, the option block with its check of \<^verbatim>\<open>n_ice\<close>, and
  the derived constant \<^verbatim>\<open>Gamma\<close>. The result holds the return code, the context and the
  locals \<^verbatim>\<open>exact_init\<close> and \<^verbatim>\<open>dump\<close>. \<^verbatim>\<open>user0\<close> is the uninitialised context on the stack;
  \<^verbatim>\<open>main\<close> sets its field \<^verbatim>\<open>cmb\<close> only after this block.
\<close>

definition main_options ::
  "ice_options \<Rightarrow> AppCtx \<Rightarrow> PetscErrorCode \<times> AppCtx \<times> bool \<times> bool" where
  "main_options opts user0 =
     (let exact_init0 = False; dump0 = False;
          u0 = user0\<lparr> secpera := 31556926, L := 1800000, g := 9.81, rho_ice := 910,
                       n_ice := 3, A_ice := 3.1689 / 10 ^ 24, D0 := 1, eps := 0.001,
                       delta := 1 / 10 ^ 4, lambda := 0.25, verif := False,
                       check_admissible := False \<rparr> in
      if ice_Begin opts \<noteq> 0 then (ice_Begin opts, u0, exact_init0, dump0) else
      let (ierr, v) = PetscOptionsGet (ice_A opts) (A_ice u0); u1 = u0\<lparr> A_ice := v \<rparr> in
      if ierr \<noteq> 0 then (ierr, u1, exact_init0, dump0) else
      let (ierr, v) = PetscOptionsGet (ice_check_admissible opts) (check_admissible u1);
          u2 = u1\<lparr> check_admissible := v \<rparr> in
      if ierr \<noteq> 0 then (ierr, u2, exact_init0, dump0) else
      let (ierr, v) = PetscOptionsGet (ice_D0 opts) (D0 u2); u3 = u2\<lparr> D0 := v \<rparr> in
      if ierr \<noteq> 0 then (ierr, u3, exact_init0, dump0) else
      let (ierr, v) = PetscOptionsGet (ice_delta opts) (delta u3); u4 = u3\<lparr> delta := v \<rparr> in
      if ierr \<noteq> 0 then (ierr, u4, exact_init0, dump0) else
      let (ierr, dump1) = PetscOptionsGet (ice_dump opts) dump0 in
      if ierr \<noteq> 0 then (ierr, u4, exact_init0, dump1) else
      let (ierr, v) = PetscOptionsGet (ice_eps opts) (eps u4); u5 = u4\<lparr> eps := v \<rparr> in
      if ierr \<noteq> 0 then (ierr, u5, exact_init0, dump1) else
      let (ierr, exact_init1) = PetscOptionsGet (ice_exact_init opts) exact_init0 in
      if ierr \<noteq> 0 then (ierr, u5, exact_init1, dump1) else
      let (ierr, v) = PetscOptionsGet (ice_L opts) (L u5); u6 = u5\<lparr> L := v \<rparr> in
      if ierr \<noteq> 0 then (ierr, u6, exact_init1, dump1) else
      let (ierr, v) = PetscOptionsGet (ice_lambda opts) (lambda u6); u7 = u6\<lparr> lambda := v \<rparr> in
      if ierr \<noteq> 0 then (ierr, u7, exact_init1, dump1) else
      let (ierr, v) = PetscOptionsGet (ice_n opts) (n_ice u7); u8 = u7\<lparr> n_ice := v \<rparr> in
      if ierr \<noteq> 0 then (ierr, u8, exact_init1, dump1) else
      if n_ice u8 \<le> 1 then (1, u8, exact_init1, dump1) else
      let (ierr, v) = PetscOptionsGet (ice_rho opts) (rho_ice u8); u9 = u8\<lparr> rho_ice := v \<rparr> in
      if ierr \<noteq> 0 then (ierr, u9, exact_init1, dump1) else
      let (ierr, v) = PetscOptionsGet (ice_verif opts) (verif u9); u10 = u9\<lparr> verif := v \<rparr> in
      if ierr \<noteq> 0 then (ierr, u10, exact_init1, dump1) else
      if ice_End opts \<noteq> 0 then (ice_End opts, u10, exact_init1, dump1) else
      let u11 = u10\<lparr> Gamma := 2 * PetscPowReal (rho_ice u10 * g u10) (n_ice u10)
                                  * A_ice u10 / (n_ice u10 + 2) \<rparr>
      in (0, u11, exact_init1, dump1))"

subsection \<open>Bed elevation\<close>

definition jc :: "int list" where
  "jc = [1, 3, 6, 8]"

definition kc :: "int list" where
  "kc = [1, 3, 4, 7]"

definition scalec :: real where
  "scalec = 750"

definition C :: "real list list" where
  "C = [[2.00000000, 0.33000000, - 0.55020034, 0.54495520],
        [0.50000000, 0.45014486, 0.60551833, - 0.52250644],
        [0.93812068, 0.32638429, - 0.24654812, 0.33887052],
        [0.17592361, - 0.35496741, 0.22694547, - 0.05280704]]"

text \<open>The sum of sines that the loops over \<^verbatim>\<open>r\<close> and \<^verbatim>\<open>s\<close> build in \<^verbatim>\<open>b\<close>, with \<^verbatim>\<open>nc = 4\<close>.\<close>

definition FormBedLocal_b :: "real \<Rightarrow> real \<Rightarrow> real \<Rightarrow> real" where
  "FormBedLocal_b Z x y =
     fold (\<lambda>r. fold (\<lambda>s b. b + C ! r ! s * sin (real_of_int (jc ! r) * Z * x)
                                          * sin (real_of_int (kc ! s) * Z * y))
                     [0..<4])
          [0..<4] 0"

definition FormBedLocal_node :: "DMDALocalInfo \<Rightarrow> AppCtx \<Rightarrow> int \<Rightarrow> int \<Rightarrow> grid \<Rightarrow> grid" where
  "FormBedLocal_node info user k j ab =
     (let dx = L user / real_of_int (mx info - 1);
          dy = L user / real_of_int (my info - 1);
          Z = pi / L user;
          y = real_of_int k * dy
      in if j < 0 \<or> j \<ge> mx info - 1 \<or> k < 0 \<or> k \<ge> my info - 1 then ab
         else (let x = real_of_int j * dx
               in put ab k j (scalec * FormBedLocal_b Z x y)))"

text \<open>\<^verbatim>\<open>FormBedLocal\<close> always returns 0; the result here is the array \<^verbatim>\<open>ab\<close> it leaves.\<close>

definition FormBedLocal :: "DMDALocalInfo \<Rightarrow> int \<Rightarrow> grid \<Rightarrow> AppCtx \<Rightarrow> grid" where
  "FormBedLocal info stencilwidth ab user =
     fold (\<lambda>k. fold (FormBedLocal_node info user k)
                     [xs info - stencilwidth .. xs info + xm info + stencilwidth - 1])
          [ys info - stencilwidth .. ys info + ym info + stencilwidth - 1] ab"

subsection \<open>Q1 interpolation\<close>

definition fieldatpt :: "real \<Rightarrow> real \<Rightarrow> real list \<Rightarrow> real" where
  "fieldatpt xi' eta' f =
     (let x = [1 - xi', xi', xi', 1 - xi'];
          y = [1 - eta', 1 - eta', eta', eta']
      in x ! 0 * y ! 0 * f ! 0 + x ! 1 * y ! 1 * f ! 1
         + x ! 2 * y ! 2 * f ! 2 + x ! 3 * y ! 3 * f ! 3)"

definition fieldatptArray :: "int \<Rightarrow> int \<Rightarrow> real \<Rightarrow> real \<Rightarrow> grid \<Rightarrow> real" where
  "fieldatptArray u v xi' eta' f =
     (let ff = [f v u, f v (u + 1), f (v + 1) (u + 1), f (v + 1) u]
      in fieldatpt xi' eta' ff)"

definition gx :: "real list" where
  "gx = [-1, 1, 1, -1]"

definition gy :: "real list" where
  "gy = [-1, -1, 1, 1]"

subsection \<open>The SIA flux\<close>

record Grad =
  x :: real
  y :: real

definition sigma :: "Grad \<Rightarrow> Grad \<Rightarrow> AppCtx \<Rightarrow> real" where
  "sigma gH gb user =
     (let sx = x gH + x gb;
          sy = y gH + y gb;
          slopesqr = sx * sx + sy * sy + delta user * delta user
      in Gamma user * PetscPowReal slopesqr ((n_ice user - 1) / 2))"

definition W :: "real \<Rightarrow> Grad \<Rightarrow> Grad" where
  "W sig gb = \<lparr> x = - sig * x gb, y = - sig * y gb \<rparr>"

definition DCS :: "real \<Rightarrow> real \<Rightarrow> AppCtx \<Rightarrow> real" where
  "DCS sig H user =
     (1 - eps user) * sig * PetscPowReal \<bar>H\<bar> (n_ice user + 2) + eps user * D0 user"

text \<open>
  \<^verbatim>\<open>SIAflux\<close> stores through the pointers \<^verbatim>\<open>D\<close> and \<^verbatim>\<open>q\<close> and always returns 0. \<^verbatim>\<open>D_ptr\<close> and
  \<^verbatim>\<open>q_ptr\<close> say whether the pointer is non-null. The result holds what has been stored
  through each pointer; it is \<^verbatim>\<open>None\<close> when the function stores through a null \<^verbatim>\<open>q\<close>, which
  the \<^verbatim>\<open>else\<close> branch does.
\<close>

definition SIAflux ::
  "Grad \<Rightarrow> Grad \<Rightarrow> real \<Rightarrow> real \<Rightarrow> bool \<Rightarrow> bool \<Rightarrow> bool \<Rightarrow> AppCtx
     \<Rightarrow> (real option \<times> real option) option" where
  "SIAflux gH gb H Hup xdir D_ptr q_ptr user =
     (let mysig = sigma gH gb user;
          myD = DCS mysig H user;
          myW = W mysig gb;
          D_out = (if D_ptr then Some myD else None)
      in if xdir \<and> q_ptr
         then Some (D_out,
                    Some (- myD * x gH + x myW * PetscPowReal \<bar>Hup\<bar> (n_ice user + 2)))
         else if q_ptr
         then Some (D_out,
                    Some (- myD * y gH + y myW * PetscPowReal \<bar>Hup\<bar> (n_ice user + 2)))
         else None)"

definition gradfatpt :: "real \<Rightarrow> real \<Rightarrow> real \<Rightarrow> real \<Rightarrow> real list \<Rightarrow> Grad" where
  "gradfatpt xi' eta' dx dy f =
     (let wx = [1 - xi', xi', xi', 1 - xi'];
          wy = [1 - eta', 1 - eta', eta', eta'];
          gradfx = gx ! 0 * wy ! 0 * f ! 0 + gx ! 1 * wy ! 1 * f ! 1
                   + gx ! 2 * wy ! 2 * f ! 2 + gx ! 3 * wy ! 3 * f ! 3;
          gradfy = wx ! 0 * gy ! 0 * f ! 0 + wx ! 1 * gy ! 1 * f ! 1
                   + wx ! 2 * gy ! 2 * f ! 2 + wx ! 3 * gy ! 3 * f ! 3
      in \<lparr> x = gradfx / dx, y = gradfy / dy \<rparr>)"

definition gradfatptArray :: "int \<Rightarrow> int \<Rightarrow> real \<Rightarrow> real \<Rightarrow> real \<Rightarrow> real \<Rightarrow> grid \<Rightarrow> Grad" where
  "gradfatptArray u v xi' eta' dx dy f =
     (let ff = [f v u, f v (u + 1), f (v + 1) (u + 1), f (v + 1) u]
      in gradfatpt xi' eta' dx dy ff)"

subsection \<open>Control-volume tables\<close>

definition je :: "int list" where
  "je = [0, 0, -1, -1, -1, -1, 0, 0]"

definition ke :: "int list" where
  "ke = [0, 0, 0, 0, -1, -1, -1, -1]"

definition ce :: "nat list" where
  "ce = [0, 3, 1, 0, 2, 1, 3, 2]"

definition xdire :: "bool list" where
  "xdire = [True, False, True, False]"

definition locx :: "real list" where
  "locx = [0.5, 0.75, 0.5, 0.25]"

definition locy :: "real list" where
  "locy = [0.25, 0.5, 0.75, 0.5]"

subsection \<open>The residual of the ice problem\<close>

text \<open>
  \<^verbatim>\<open>aHin\<close> is the ghosted input iterate and \<^verbatim>\<open>FF\<close> the residual array. \<^verbatim>\<open>aH\<close> (the array of
  \<^verbatim>\<open>Hcopy\<close>), \<^verbatim>\<open>ab\<close> and \<^verbatim>\<open>aqquad[0..3]\<close> are the arrays of the work vectors that
  \<^verbatim>\<open>DMGetLocalVector\<close> hands out; they come with whatever an earlier use left in them.
\<close>

record ice_mem =
  aHin :: grid
  FF :: grid
  aH :: grid
  ab :: grid
  aqquad :: "nat \<Rightarrow> grid"

text \<open>The body of the first loop nest after its two tests: copy, with zero boundary values.\<close>

definition FormFunctionLocal_ice_copy_node :: "DMDALocalInfo \<Rightarrow> int \<Rightarrow> int \<Rightarrow> ice_mem \<Rightarrow> ice_mem" where
  "FormFunctionLocal_ice_copy_node info k j m =
     (if j = 0 \<or> j = mx info - 1 \<or> k = 0 \<or> k = my info - 1
      then (let m1 = (if j \<ge> xs info \<and> j < xs info + xm info \<and> k \<ge> ys info \<and> k < ys info + ym info
                      then m\<lparr> FF := put (FF m) k j (aHin m k j) \<rparr>
                      else m)
            in m1\<lparr> aH := put (aH m1) k j 0 \<rparr>)
      else m\<lparr> aH := put (aH m) k j (aHin m k j) \<rparr>)"

text \<open>
  The loop over \<^verbatim>\<open>j\<close> of the first loop nest; \<^verbatim>\<open>SETERRQ3\<close> leaves the function with code 1,
  and the memory is as the iterations before it left it.
\<close>

fun FormFunctionLocal_ice_copy_row ::
  "DMDALocalInfo \<Rightarrow> AppCtx \<Rightarrow> int \<Rightarrow> int list \<Rightarrow> ice_mem \<Rightarrow> PetscErrorCode \<times> ice_mem" where
  "FormFunctionLocal_ice_copy_row info user k [] m = (0, m)"
| "FormFunctionLocal_ice_copy_row info user k (j # js) m =
     (if j < 0 \<or> j > mx info - 1 \<or> k < 0 \<or> k > my info - 1
      then FormFunctionLocal_ice_copy_row info user k js m
      else if check_admissible user \<and> aHin m k j < 0
      then (1, m)
      else FormFunctionLocal_ice_copy_row info user k js
             (FormFunctionLocal_ice_copy_node info k j m))"

fun FormFunctionLocal_ice_copy ::
  "DMDALocalInfo \<Rightarrow> AppCtx \<Rightarrow> int list \<Rightarrow> int list \<Rightarrow> ice_mem \<Rightarrow> PetscErrorCode \<times> ice_mem" where
  "FormFunctionLocal_ice_copy info user [] js m = (0, m)"
| "FormFunctionLocal_ice_copy info user (k # ks) js m =
     (case FormFunctionLocal_ice_copy_row info user k js m of
        (ierr, m1) \<Rightarrow>
          if ierr \<noteq> 0 then (ierr, m1)
          else FormFunctionLocal_ice_copy info user ks js m1)"

text \<open>The body of the loop over the four flux points \<^verbatim>\<open>c\<close> of element \<^verbatim>\<open>(j,k)\<close>.\<close>

definition FormFunctionLocal_ice_flux ::
  "DMDALocalInfo \<Rightarrow> AppCtx \<Rightarrow> int \<Rightarrow> int \<Rightarrow> nat \<Rightarrow> ice_mem \<Rightarrow> ice_mem" where
  "FormFunctionLocal_ice_flux info user k j c m =
     (let dx = L user / real_of_int (mx info - 1);
          dy = L user / real_of_int (my info - 1);
          upwind = (lambda user > 0);
          upmin = (1 - lambda user) * 0.5;
          upmax = (1 + lambda user) * 0.5;
          H = fieldatptArray j k (locx ! c) (locy ! c) (aH m);
          gH = gradfatptArray j k (locx ! c) (locy ! c) dx dy (aH m);
          gb = gradfatptArray j k (locx ! c) (locy ! c) dx dy (ab m);
          Hup = (if upwind
                 then (let lxup = (if xdire ! c then (if x gb \<le> 0 then upmin else upmax)
                                   else locx ! c);
                           lyup = (if xdire ! c then locy ! c
                                   else (if y gb \<le> 0 then upmin else upmax))
                       in fieldatptArray j k lxup lyup (aH m))
                 else H)
      in case SIAflux gH gb H Hup (xdire ! c) True True user of
           Some (DSIA_ckj, Some qSIA_ckj) \<Rightarrow>
             m\<lparr> aqquad := (aqquad m)(c := put (aqquad m c) k j qSIA_ckj) \<rparr>
         | _ \<Rightarrow> m)"

definition FormFunctionLocal_ice_element ::
  "DMDALocalInfo \<Rightarrow> AppCtx \<Rightarrow> int \<Rightarrow> int \<Rightarrow> ice_mem \<Rightarrow> ice_mem" where
  "FormFunctionLocal_ice_element info user k j m =
     (if j < 0 \<or> j \<ge> mx info - 1 \<or> k < 0 \<or> k \<ge> my info - 1 then m
      else fold (FormFunctionLocal_ice_flux info user k j) [0..<4] m)"

definition coeff :: "DMDALocalInfo \<Rightarrow> AppCtx \<Rightarrow> real list" where
  "coeff info user =
     (let dx = L user / real_of_int (mx info - 1);
          dy = L user / real_of_int (my info - 1)
      in [dy / 2, dx / 2, dx / 2, - dy / 2, - dy / 2, - dx / 2, - dx / 2, dy / 2])"

text \<open>The climatic mass balance \<^verbatim>\<open>M\<close> at node \<^verbatim>\<open>(j,k)\<close>.\<close>

definition FormFunctionLocal_ice_M :: "DMDALocalInfo \<Rightarrow> AppCtx \<Rightarrow> ice_mem \<Rightarrow> int \<Rightarrow> int \<Rightarrow> real" where
  "FormFunctionLocal_ice_M info user m k j =
     (let dx = L user / real_of_int (mx info - 1);
          dy = L user / real_of_int (my info - 1)
      in if verif user
         then DomeCMB (real_of_int j * dx) (real_of_int k * dy) user
         else cmb user (ab m k j + aH m k j))"

text \<open>The body of the last loop nest: the flux balance of the control volume of one node.\<close>

definition FormFunctionLocal_ice_node ::
  "DMDALocalInfo \<Rightarrow> AppCtx \<Rightarrow> int \<Rightarrow> int \<Rightarrow> ice_mem \<Rightarrow> ice_mem" where
  "FormFunctionLocal_ice_node info user k j m =
     (let dx = L user / real_of_int (mx info - 1);
          dy = L user / real_of_int (my info - 1)
      in if j = 0 \<or> j = mx info - 1 \<or> k = 0 \<or> k = my info - 1 then m
         else (let M = FormFunctionLocal_ice_M info user m k j;
                   m1 = m\<lparr> FF := put (FF m) k j (- M * dx * dy) \<rparr>
               in fold (\<lambda>s m'. m'\<lparr> FF := put (FF m') k j
                                   (FF m' k j + coeff info user ! s
                                      * aqquad m' (ce ! s) (k + ke ! s) (j + je ! s)) \<rparr>)
                       [0..<8] m1))"

definition FormFunctionLocal_ice ::
  "DMDALocalInfo \<Rightarrow> AppCtx \<Rightarrow> ice_mem \<Rightarrow> PetscErrorCode \<times> ice_mem" where
  "FormFunctionLocal_ice info user m0 =
     (case FormFunctionLocal_ice_copy info user
             [ys info - 1 .. ys info + ym info] [xs info - 1 .. xs info + xm info] m0 of
        (ierr, m1) \<Rightarrow>
          if ierr \<noteq> 0 then (ierr, m1) else
          let m2 = (if verif user then m1\<lparr> ab := (\<lambda>k j. 0) \<rparr>
                    else m1\<lparr> ab := FormBedLocal info 1 (ab m1) user \<rparr>);
              m3 = fold (\<lambda>k. fold (FormFunctionLocal_ice_element info user k)
                                  [xs info - 1 .. xs info + xm info - 1])
                        [ys info - 1 .. ys info + ym info - 1] m2;
              m4 = fold (\<lambda>k. fold (FormFunctionLocal_ice_node info user k)
                                  [xs info .. xs info + xm info - 1])
                        [ys info .. ys info + ym info - 1] m3
          in (0, m4))"

section \<open>Notions used in the statements\<close>

text \<open>
  The definitions of this section are not functions of the program: they name the
  quantities and index sets that the statements below speak about.
\<close>

text \<open>
  The sum that the quadrature loops of \<^verbatim>\<open>FormFunctionLocal\<close> add to the residual for corner
  \<^verbatim>\<open>l\<close> of an element with right-hand side values \<^verbatim>\<open>f\<close> and nodal values \<^verbatim>\<open>u\<close>, and that sum
  for element \<^verbatim>\<open>(i,j)\<close> of the grid with the iterate \<^verbatim>\<open>a\<close>.
\<close>

definition corner_quadrature ::
  "DMDALocalInfo \<Rightarrow> PLapCtx \<Rightarrow> nat \<Rightarrow> real list \<Rightarrow> real list \<Rightarrow> real" where
  "corner_quadrature info user l f u =
     (let hx = 1 / real_of_int (mx info - 1); hy = 1 / real_of_int (my info - 1);
          C = 0.25 * hx * hy; n = quaddegree user
      in sum_list (map (\<lambda>r. sum_list (map (\<lambda>s.
            C * wq ! nat (n - 1) ! nat r * wq ! nat (n - 1) ! nat s
              * FunIntegrand info l f u (zq ! nat (n - 1) ! nat r) (zq ! nat (n - 1) ! nat s)
                  (p user) (PLapCtx.eps user)) [0 .. n - 1])) [0 .. n - 1]))"

definition element_contribution ::
  "(real \<Rightarrow> real \<Rightarrow> real \<Rightarrow> real) \<Rightarrow> DMDALocalInfo \<Rightarrow> PLapCtx \<Rightarrow> grid \<Rightarrow> int \<Rightarrow> int \<Rightarrow> nat \<Rightarrow> real" where
  "element_contribution BoundaryG info user a i j l =
     corner_quadrature info user l (FRHS_element info user i j)
       (GetUorGElement BoundaryG info i j a (alpha user))"

text \<open>
  The test of the corner loop: node \<^verbatim>\<open>(PP,QQ)\<close> is an interior node that the process owns.
\<close>

definition owned_unknown :: "DMDALocalInfo \<Rightarrow> int \<Rightarrow> int \<Rightarrow> bool" where
  "owned_unknown info PP QQ \<longleftrightarrow>
     0 < PP \<and> PP < mx info - 1 \<and> 0 < QQ \<and> QQ < my info - 1
     \<and> xs info \<le> PP \<and> PP < xs info + xm info \<and> ys info \<le> QQ \<and> QQ < ys info + ym info"

text \<open>What the first loop nest of \<^verbatim>\<open>FormFunctionLocal\<close> stores at node \<^verbatim>\<open>(P,Q)\<close>.\<close>

definition clear_value ::
  "(real \<Rightarrow> real \<Rightarrow> real \<Rightarrow> real) \<Rightarrow> DMDALocalInfo \<Rightarrow> PLapCtx \<Rightarrow> grid \<Rightarrow> int \<Rightarrow> int \<Rightarrow> real" where
  "clear_value BoundaryG info user a Q P =
     (if P = 0 \<or> P = mx info - 1 \<or> Q = 0 \<or> Q = my info - 1
      then a Q P - BoundaryG (real_of_int P * (1 / real_of_int (mx info - 1)))
                     (real_of_int Q * (1 / real_of_int (my info - 1))) (alpha user)
      else 0)"

text \<open>
  Node \<^verbatim>\<open>(j,k)\<close>, column first, is a node of the grid, is on the boundary of the grid, is owned
  by the process.
\<close>

definition in_domain :: "DMDALocalInfo \<Rightarrow> int \<Rightarrow> int \<Rightarrow> bool" where
  "in_domain info j k \<longleftrightarrow> 0 \<le> j \<and> j \<le> mx info - 1 \<and> 0 \<le> k \<and> k \<le> my info - 1"

definition on_boundary :: "DMDALocalInfo \<Rightarrow> int \<Rightarrow> int \<Rightarrow> bool" where
  "on_boundary info j k \<longleftrightarrow> j = 0 \<or> j = mx info - 1 \<or> k = 0 \<or> k = my info - 1"

definition owned :: "DMDALocalInfo \<Rightarrow> int \<Rightarrow> int \<Rightarrow> bool" where
  "owned info j k \<longleftrightarrow>
     xs info \<le> j \<and> j < xs info + xm info \<and> ys info \<le> k \<and> k < ys info + ym info"

text \<open>
  The sum over the eight quadrature points on the boundary of the control volume of node
  \<^verbatim>\<open>(j,k)\<close>, read from flux arrays \<^verbatim>\<open>aq\<close>, and the value that the last loop nest of the ice
  residual leaves at an interior node.
\<close>

definition cv_flux :: "DMDALocalInfo \<Rightarrow> AppCtx \<Rightarrow> (nat \<Rightarrow> grid) \<Rightarrow> int \<Rightarrow> int \<Rightarrow> real" where
  "cv_flux info user aq k j =
     sum_list (map (\<lambda>s. coeff info user ! s * aq (ce ! s) (k + ke ! s) (j + je ! s)) [0..<8])"

definition node_value :: "DMDALocalInfo \<Rightarrow> AppCtx \<Rightarrow> ice_mem \<Rightarrow> int \<Rightarrow> int \<Rightarrow> real" where
  "node_value info user m k j =
     - FormFunctionLocal_ice_M info user m k j
         * (L user / real_of_int (mx info - 1)) * (L user / real_of_int (my info - 1))
     + cv_flux info user (aqquad m) k j"

text \<open>
  The admissibility check is on and the iterate \<^verbatim>\<open>a\<close> is negative at a node of the grid in
  the owned patch or its halo.
\<close>

definition inadmissible :: "DMDALocalInfo \<Rightarrow> AppCtx \<Rightarrow> grid \<Rightarrow> bool" where
  "inadmissible info user a \<longleftrightarrow>
     check_admissible user \<and>
     (\<exists>k \<in> set [ys info - 1 .. ys info + ym info].
        \<exists>j \<in> set [xs info - 1 .. xs info + xm info]. in_domain info j k \<and> a k j < 0)"

text \<open>
  The value that \<^verbatim>\<open>GetUorGElement\<close> is to deliver for the node in column \<^verbatim>\<open>P\<close> and row \<^verbatim>\<open>Q\<close>:
  the boundary function at the coordinates of the node on the boundary of the grid,
  the iterate elsewhere.
\<close>

definition nodal_value ::
  "(real \<Rightarrow> real \<Rightarrow> real \<Rightarrow> real) \<Rightarrow> DMDALocalInfo \<Rightarrow> grid \<Rightarrow> real \<Rightarrow> int \<Rightarrow> int \<Rightarrow> real" where
  "nodal_value BoundaryG info a al P Q =
     (if on_boundary info P Q
      then BoundaryG (real_of_int P * (1 / real_of_int (mx info - 1)))
                     (real_of_int Q * (1 / real_of_int (my info - 1))) al
      else a Q P)"

text \<open>
  The flux model in the words of the specification: the slope factor, the diffusivity of
  the continuation scheme, and the flux component in direction \<^verbatim>\<open>x\<close> or \<^verbatim>\<open>y\<close>.
\<close>

definition spec_sigma :: "AppCtx \<Rightarrow> Grad \<Rightarrow> Grad \<Rightarrow> real" where
  "spec_sigma user gH gb =
     Gamma user * PetscPowReal ((x gH + x gb)\<^sup>2 + (y gH + y gb)\<^sup>2 + (delta user)\<^sup>2)
                    ((n_ice user - 1) / 2)"

definition spec_D :: "AppCtx \<Rightarrow> real \<Rightarrow> real \<Rightarrow> real" where
  "spec_D user sg H = (1 - eps user) * sg * PetscPowReal \<bar>H\<bar> (n_ice user + 2) + eps user * D0 user"

definition spec_flux :: "AppCtx \<Rightarrow> Grad \<Rightarrow> Grad \<Rightarrow> real \<Rightarrow> real \<Rightarrow> bool \<Rightarrow> real" where
  "spec_flux user gH gb H Hup xdir =
     (let sg = spec_sigma user gH gb;
          D = spec_D user sg H
      in if xdir
         then - D * x gH + (- sg * x gb) * PetscPowReal \<bar>Hup\<bar> (n_ice user + 2)
         else - D * y gH + (- sg * y gb) * PetscPowReal \<bar>Hup\<bar> (n_ice user + 2))"

text \<open>Concrete inputs: the default 5 by 5 grid on one process, and contexts and arrays.\<close>

definition grid5 :: DMDALocalInfo where
  "grid5 = \<lparr> mx = 5, my = 5, xs = 0, ys = 0, xm = 5, ym = 5 \<rparr>"

definition plap_ctx :: PLapCtx where
  "plap_ctx = \<lparr> p = 4, eps = 0, quaddegree = 2, alpha = 0 \<rparr>"

definition plap_mem0 :: plap_mem where
  "plap_mem0 = \<lparr> au = (\<lambda>j i. real_of_int (i + j)), FF = (\<lambda>j i. 7), obj = 0 \<rparr>"

definition ice_ctx :: AppCtx where
  "ice_ctx = \<lparr> secpera = 31556926, L = 1800000, g = 9.81, rho_ice = 910, n_ice = 3,
               A_ice = 3.1689 / 10 ^ 24, Gamma = 1, D0 = 1, eps = 0.001, delta = 1 / 10 ^ 4,
               lambda = 0.25, verif = False, check_admissible = True, cmb = (\<lambda>s. 0) \<rparr>"

definition ice_mem0 :: ice_mem where
  "ice_mem0 = \<lparr> aHin = (\<lambda>k j. 1), FF = (\<lambda>k j. 7), aH = (\<lambda>k j. 7), ab = (\<lambda>k j. 1),
                aqquad = (\<lambda>c k j. 7) \<rparr>"

definition ice_mem_neg :: ice_mem where
  "ice_mem_neg = ice_mem0\<lparr> aHin := (\<lambda>k j. if k = 2 \<and> j = 2 then - 1 else 1) \<rparr>"

definition plap_options0 :: plap_options where
  "plap_options0 = \<lparr> plap_Begin = 0, plap_p = (0, Some 3), plap_eps = (0, None),
                      plap_quaddegree = (0, Some 4), plap_End = 0 \<rparr>"

definition ice_options0 :: ice_options where
  "ice_options0 = \<lparr> ice_A = (0, None), ice_check_admissible = (0, None), ice_D0 = (0, None),
                     ice_delta = (0, None), ice_dump = (0, None), ice_eps = (0, None),
                     ice_exact_init = (0, None), ice_L = (0, None), ice_lambda = (0, None),
                     ice_n = (0, Some 1), ice_rho = (0, None), ice_verif = (0, None),
                     ice_Begin = 0, ice_End = 0 \<rparr>"

definition plap_options_none :: plap_options where
  "plap_options_none = \<lparr> plap_Begin = 0, plap_p = (0, None), plap_eps = (0, None),
                          plap_quaddegree = (0, None), plap_End = 0 \<rparr>"

text \<open>
  The nodes at which \<^verbatim>\<open>FormBedLocal\<close> stores a value, and the value: the scaled sum of sines
  at the position of the node.
\<close>

definition bed_node :: "DMDALocalInfo \<Rightarrow> int \<Rightarrow> int \<Rightarrow> bool" where
  "bed_node info j k \<longleftrightarrow> 0 \<le> j \<and> j < mx info - 1 \<and> 0 \<le> k \<and> k < my info - 1"

definition bed_value :: "DMDALocalInfo \<Rightarrow> AppCtx \<Rightarrow> int \<Rightarrow> int \<Rightarrow> real" where
  "bed_value info user j k =
     scalec * FormBedLocal_b (pi / L user)
                (real_of_int j * (L user / real_of_int (mx info - 1)))
                (real_of_int k * (L user / real_of_int (my info - 1)))"

text \<open>
  Node \<^verbatim>\<open>(J,K)\<close> is a node of the grid that the first loop nest of the ice residual, running
  over the rows \<^verbatim>\<open>ys-1..ys+ym\<close> and in each row over the columns \<^verbatim>\<open>xs-1..xs+xm\<close>, handles
  before it reaches node \<^verbatim>\<open>(j,k)\<close>.
\<close>

definition copied_before :: "DMDALocalInfo \<Rightarrow> int \<Rightarrow> int \<Rightarrow> int \<Rightarrow> int \<Rightarrow> bool" where
  "copied_before info k j K J \<longleftrightarrow>
     ys info - 1 \<le> K \<and> xs info - 1 \<le> J \<and> J \<le> xs info + xm info
     \<and> (K < k \<or> (K = k \<and> J < j)) \<and> in_domain info J K"

section \<open>Loop lemmas\<close>

lemma put_apply: "put a j i v j' i' = (if j' = j \<and> i' = i then v else a j' i')"
  by (simp add: put_def)

lemma fold_plap_acc:
  assumes "\<And>z m. au (f z m) = au m"
      and "\<And>z m. plap_mem.FF (f z m) Q P = plap_mem.FF m Q P + d (au m) z"
  shows "au (fold f zs m) = au m \<and>
         plap_mem.FF (fold f zs m) Q P = plap_mem.FF m Q P + sum_list (map (d (au m)) zs)"
  by (induction zs arbitrary: m) (simp_all add: assms algebra_simps)

lemma quad_au: "au (FormFunctionLocal_quad info user l f u PP QQ m) = au m"
proof -
  have inner: "au (fold (\<lambda>s m. m\<lparr> plap_mem.FF := g r s m \<rparr>) zs m) = au m" for g r zs m
    by (induction zs arbitrary: m) simp_all
  have outer: "au (fold (\<lambda>r. fold (\<lambda>s m. m\<lparr> plap_mem.FF := g r s m \<rparr>) zs) rs m) = au m" for g zs rs m
    by (induction rs arbitrary: m) (simp_all add: inner)
  show ?thesis unfolding FormFunctionLocal_quad_def Let_def by (rule outer)
qed

lemma quad_FF:
  "plap_mem.FF (FormFunctionLocal_quad info user l f u PP QQ m) Q P =
     plap_mem.FF m Q P + (if Q = QQ \<and> P = PP then corner_quadrature info user l f u else 0)"
proof -
  have inner: "plap_mem.FF (fold (\<lambda>s m. m\<lparr> plap_mem.FF := put (plap_mem.FF m) QQ PP (plap_mem.FF m QQ PP + t s) \<rparr>) zs m) Q P
      = plap_mem.FF m Q P + (if Q = QQ \<and> P = PP then sum_list (map t zs) else 0)" for t zs m
    by (induction zs arbitrary: m) (simp_all add: put_apply)
  have outer: "plap_mem.FF (fold (\<lambda>r. fold (\<lambda>s m. m\<lparr> plap_mem.FF := put (plap_mem.FF m) QQ PP (plap_mem.FF m QQ PP + t r s) \<rparr>) zs) rs m) Q P
      = plap_mem.FF m Q P + (if Q = QQ \<and> P = PP then sum_list (map (\<lambda>r. sum_list (map (t r) zs)) rs) else 0)" for t zs rs m
    by (induction rs arbitrary: m) (simp_all add: inner)
  show ?thesis unfolding FormFunctionLocal_quad_def corner_quadrature_def Let_def by (rule outer)
qed

lemma corner_au: "au (FormFunctionLocal_corner info user i j f u l m) = au m"
  by (simp add: FormFunctionLocal_corner_def Let_def quad_au)

lemma corner_FF:
  "plap_mem.FF (FormFunctionLocal_corner info user i j f u l m) Q P =
     plap_mem.FF m Q P +
     (if owned_unknown info P Q
         \<and> Q = j + lj ! l \<and> P = i + li ! l
      then corner_quadrature info user l f u else 0)"
  by (auto simp add: FormFunctionLocal_corner_def owned_unknown_def Let_def quad_FF)

lemma element_au_FF:
  "au (FormFunctionLocal_element BoundaryG info user j i m) = au m \<and>
   plap_mem.FF (FormFunctionLocal_element BoundaryG info user j i m) Q P =
     plap_mem.FF m Q P +
     sum_list (map (\<lambda>l.
       if owned_unknown info P Q
         \<and> Q = j + lj ! l \<and> P = i + li ! l
       then element_contribution BoundaryG info user (au m) i j l else 0) [0..<4])"
  unfolding FormFunctionLocal_element_def Let_def element_contribution_def
  by (rule fold_plap_acc) (simp_all add: corner_au corner_FF)

lemma element_row_au_FF:
  "au (fold (FormFunctionLocal_element BoundaryG info user j) is m) = au m \<and>
   plap_mem.FF (fold (FormFunctionLocal_element BoundaryG info user j) is m) Q P =
     plap_mem.FF m Q P +
     sum_list (map (\<lambda>i. sum_list (map (\<lambda>l.
       if owned_unknown info P Q
         \<and> Q = j + lj ! l \<and> P = i + li ! l
       then element_contribution BoundaryG info user (au m) i j l else 0) [0..<4])) is)"
  by (rule fold_plap_acc) (simp_all add: element_au_FF)

lemma element_loops_au_FF:
  "au (fold (\<lambda>j. fold (FormFunctionLocal_element BoundaryG info user j) is) js m) = au m \<and>
   plap_mem.FF (fold (\<lambda>j. fold (FormFunctionLocal_element BoundaryG info user j) is) js m) Q P =
     plap_mem.FF m Q P +
     sum_list (map (\<lambda>j. sum_list (map (\<lambda>i. sum_list (map (\<lambda>l.
       if owned_unknown info P Q
         \<and> Q = j + lj ! l \<and> P = i + li ! l
       then element_contribution BoundaryG info user (au m) i j l else 0) [0..<4])) is)) js)"
  by (rule fold_plap_acc) (simp_all add: element_row_au_FF)

lemma sum_list_upto_delta:
  "sum_list (map (\<lambda>i. if i = a then f i else 0) [lo..hi]) = (if lo \<le> a \<and> a \<le> hi then f a else (0::real))"
proof -
  have "sum_list (map (\<lambda>i. if i = a then f i else 0) [lo..hi])
        = sum (\<lambda>i. if i = a then f i else 0) (set [lo..hi])"
    by (rule sum_set_upto_conv_sum_list_int [symmetric])
  also have "\<dots> = (if lo \<le> a \<and> a \<le> hi then f a else 0)"
    by (simp add: sum.delta)
  finally show ?thesis .
qed

lemma sum_list_upto_delta2:
  "sum_list (map (\<lambda>j. sum_list (map (\<lambda>i. if i = a \<and> j = b then f i j else 0) [ilo..ihi])) [jlo..jhi])
     = (if ilo \<le> a \<and> a \<le> ihi \<and> jlo \<le> b \<and> b \<le> jhi then f a b else (0::real))"
proof -
  have "(\<lambda>j. sum_list (map (\<lambda>i. if i = a \<and> j = b then f i j else 0) [ilo..ihi]))
        = (\<lambda>j. if j = b then (if ilo \<le> a \<and> a \<le> ihi then f a j else 0) else 0)"
  proof
    fix j
    have "(\<lambda>i. if i = a \<and> j = b then f i j else 0) = (\<lambda>i. if i = a then (if j = b then f i j else 0) else 0)"
      by auto
    then show "sum_list (map (\<lambda>i. if i = a \<and> j = b then f i j else 0) [ilo..ihi])
        = (if j = b then (if ilo \<le> a \<and> a \<le> ihi then f a j else 0) else 0)"
      by (simp add: sum_list_upto_delta)
  qed
  then show ?thesis by (simp add: sum_list_upto_delta)
qed

lemma fold_plap_assign:
  assumes "\<And>i m. au (f i m) = au m"
      and "\<And>i m Q P. plap_mem.FF (f i m) Q P = (if Q = j \<and> P = i then v (au m) Q P else plap_mem.FF m Q P)"
  shows "au (fold f is m) = au m \<and>
         plap_mem.FF (fold f is m) Q P =
           (if Q = j \<and> P \<in> set is then v (au m) Q P else plap_mem.FF m Q P)"
proof (induction "is" arbitrary: m)
  case Nil
  show ?case by simp
next
  case (Cons i "is")
  show ?case by (auto simp add: Cons assms)
qed

lemma fold_plap_assign_rows:
  assumes "\<And>j m. au (f j m) = au m"
      and "\<And>j m Q P. plap_mem.FF (f j m) Q P = (if Q = j \<and> P \<in> S then v (au m) Q P else plap_mem.FF m Q P)"
  shows "au (fold f js m) = au m \<and>
         plap_mem.FF (fold f js m) Q P =
           (if Q \<in> set js \<and> P \<in> S then v (au m) Q P else plap_mem.FF m Q P)"
proof (induction js arbitrary: m)
  case Nil
  show ?case by simp
next
  case (Cons j js)
  show ?case by (auto simp add: Cons assms)
qed

lemma clear_step_au: "au (FormFunctionLocal_clear BoundaryG info user j i m) = au m"
  by (simp add: FormFunctionLocal_clear_def Let_def)

lemma clear_step_FF:
  "plap_mem.FF (FormFunctionLocal_clear BoundaryG info user j i m) Q P =
     (if Q = j \<and> P = i then clear_value BoundaryG info user (au m) Q P else plap_mem.FF m Q P)"
  by (simp add: FormFunctionLocal_clear_def clear_value_def Let_def put_apply)

lemma clear_row:
  "au (fold (FormFunctionLocal_clear BoundaryG info user j) is m) = au m \<and>
   plap_mem.FF (fold (FormFunctionLocal_clear BoundaryG info user j) is m) Q P =
     (if Q = j \<and> P \<in> set is then clear_value BoundaryG info user (au m) Q P
      else plap_mem.FF m Q P)"
  by (rule fold_plap_assign) (simp_all add: clear_step_au clear_step_FF)

lemma clear_loops:
  "au (fold (\<lambda>j. fold (FormFunctionLocal_clear BoundaryG info user j) is) js m) = au m \<and>
   plap_mem.FF (fold (\<lambda>j. fold (FormFunctionLocal_clear BoundaryG info user j) is) js m) Q P =
     (if Q \<in> set js \<and> P \<in> set is then clear_value BoundaryG info user (au m) Q P
      else plap_mem.FF m Q P)"
  by (rule fold_plap_assign_rows) (simp_all add: clear_row)

lemma FormFunctionLocal_au: "au (snd (FormFunctionLocal BoundaryG info user m)) = au m"
  by (simp add: FormFunctionLocal_def Let_def element_loops_au_FF clear_loops)

lemma FormFunctionLocal_FF:
  "plap_mem.FF (snd (FormFunctionLocal BoundaryG info user m)) Q P =
     (if ys info \<le> Q \<and> Q \<le> ys info + ym info - 1 \<and> xs info \<le> P \<and> P \<le> xs info + xm info - 1
      then clear_value BoundaryG info user (au m) Q P else plap_mem.FF m Q P)
     + sum_list (map (\<lambda>j. sum_list (map (\<lambda>i. sum_list (map (\<lambda>l.
         if owned_unknown info P Q \<and> Q = j + lj ! l \<and> P = i + li ! l
         then element_contribution BoundaryG info user (au m) i j l else 0) [0..<4]))
         [if xs info < 1 then 1 else xs info ..
          if xs info + xm info > mx info - 1 then mx info - 1 else xs info + xm info]))
         [if ys info < 1 then 1 else ys info ..
          if ys info + ym info > my info - 1 then my info - 1 else ys info + ym info])"
proof -
  define m1 where "m1 = fold (\<lambda>j. fold (FormFunctionLocal_clear BoundaryG info user j)
                              [xs info .. xs info + xm info - 1])
                    [ys info .. ys info + ym info - 1] m"
  have a1: "au m1 = au m"
    unfolding m1_def using clear_loops by blast
  have f1: "plap_mem.FF m1 Q P =
     (if ys info \<le> Q \<and> Q \<le> ys info + ym info - 1 \<and> xs info \<le> P \<and> P \<le> xs info + xm info - 1
      then clear_value BoundaryG info user (au m) Q P else plap_mem.FF m Q P)"
    unfolding m1_def by (simp add: clear_loops)
  have "snd (FormFunctionLocal BoundaryG info user m) =
        fold (\<lambda>j. fold (FormFunctionLocal_element BoundaryG info user j)
               [if xs info < 1 then 1 else xs info ..
                if xs info + xm info > mx info - 1 then mx info - 1 else xs info + xm info])
             [if ys info < 1 then 1 else ys info ..
              if ys info + ym info > my info - 1 then my info - 1 else ys info + ym info] m1"
    by (simp add: FormFunctionLocal_def Let_def m1_def)
  then show ?thesis
    by (simp only: element_loops_au_FF a1 f1)
qed

lemma corner_sum:
  "sum_list (map (\<lambda>l. if G \<and> Q = j + lj ! l \<and> P = i + li ! l then c i j l else 0) [0..<4])
   = (if i = P \<and> j = Q then (if G then c i j 0 else 0) else 0)
     + (if i = P + 1 \<and> j = Q then (if G then c i j 1 else 0) else 0)
     + (if i = P + 1 \<and> j = Q + 1 then (if G then c i j 2 else 0) else 0)
     + (if i = P \<and> j = Q + 1 then (if G then c i j 3 else (0::real)) else 0)"
proof -
  have "[0..<4] = [0, 1, 2, 3::nat]" by (simp add: upt_rec)
  then show ?thesis by (auto simp add: li_def lj_def)
qed

lemma FormFunctionLocal_FF_closed:
  "plap_mem.FF (snd (FormFunctionLocal BoundaryG info user m)) Q P =
     (if ys info \<le> Q \<and> Q \<le> ys info + ym info - 1 \<and> xs info \<le> P \<and> P \<le> xs info + xm info - 1
      then clear_value BoundaryG info user (au m) Q P else plap_mem.FF m Q P)
     + ((if (if xs info < 1 then 1 else xs info) \<le> P
            \<and> P \<le> (if xs info + xm info > mx info - 1 then mx info - 1 else xs info + xm info)
            \<and> (if ys info < 1 then 1 else ys info) \<le> Q
            \<and> Q \<le> (if ys info + ym info > my info - 1 then my info - 1 else ys info + ym info)
         then (if owned_unknown info P Q
               then element_contribution BoundaryG info user (au m) P Q 0 else 0) else 0)
      + (if (if xs info < 1 then 1 else xs info) \<le> P + 1
            \<and> P + 1 \<le> (if xs info + xm info > mx info - 1 then mx info - 1 else xs info + xm info)
            \<and> (if ys info < 1 then 1 else ys info) \<le> Q
            \<and> Q \<le> (if ys info + ym info > my info - 1 then my info - 1 else ys info + ym info)
         then (if owned_unknown info P Q
               then element_contribution BoundaryG info user (au m) (P + 1) Q 1 else 0) else 0)
      + (if (if xs info < 1 then 1 else xs info) \<le> P + 1
            \<and> P + 1 \<le> (if xs info + xm info > mx info - 1 then mx info - 1 else xs info + xm info)
            \<and> (if ys info < 1 then 1 else ys info) \<le> Q + 1
            \<and> Q + 1 \<le> (if ys info + ym info > my info - 1 then my info - 1 else ys info + ym info)
         then (if owned_unknown info P Q
               then element_contribution BoundaryG info user (au m) (P + 1) (Q + 1) 2 else 0) else 0)
      + (if (if xs info < 1 then 1 else xs info) \<le> P
            \<and> P \<le> (if xs info + xm info > mx info - 1 then mx info - 1 else xs info + xm info)
            \<and> (if ys info < 1 then 1 else ys info) \<le> Q + 1
            \<and> Q + 1 \<le> (if ys info + ym info > my info - 1 then my info - 1 else ys info + ym info)
         then (if owned_unknown info P Q
               then element_contribution BoundaryG info user (au m) P (Q + 1) 3 else 0) else 0))"
  by (simp only: FormFunctionLocal_FF corner_sum sum_list_addf sum_list_upto_delta2)

lemma FormFunctionLocal_FF_owned_unknown:
  assumes "owned_unknown info PP QQ"
  shows "plap_mem.FF (snd (FormFunctionLocal BoundaryG info user m)) QQ PP =
            0 + element_contribution BoundaryG info user (au m) PP QQ 0
              + element_contribution BoundaryG info user (au m) (PP + 1) QQ 1
              + element_contribution BoundaryG info user (au m) PP (QQ + 1) 3
              + element_contribution BoundaryG info user (au m) (PP + 1) (QQ + 1) 2"
proof -
  from assms have h: "0 < PP" "PP < mx info - 1" "0 < QQ" "QQ < my info - 1"
      "xs info \<le> PP" "PP < xs info + xm info" "ys info \<le> QQ" "QQ < ys info + ym info"
    by (simp_all add: owned_unknown_def)
  have r1: "(if xs info < 1 then 1 else xs info) \<le> PP" using h by simp
  have r2: "PP + 1 \<le> (if xs info + xm info > mx info - 1 then mx info - 1 else xs info + xm info)"
    using h by simp
  have r3: "(if ys info < 1 then 1 else ys info) \<le> QQ" using h by simp
  have r4: "QQ + 1 \<le> (if ys info + ym info > my info - 1 then my info - 1 else ys info + ym info)"
    using h by simp
  have r5: "(if xs info < 1 then 1 else xs info) \<le> PP + 1" using r1 by linarith
  have r6: "PP \<le> (if xs info + xm info > mx info - 1 then mx info - 1 else xs info + xm info)"
    using r2 by linarith
  have r7: "(if ys info < 1 then 1 else ys info) \<le> QQ + 1" using r3 by linarith
  have r8: "QQ \<le> (if ys info + ym info > my info - 1 then my info - 1 else ys info + ym info)"
    using r4 by linarith
  have c: "ys info \<le> QQ \<and> QQ \<le> ys info + ym info - 1 \<and> xs info \<le> PP \<and> PP \<le> xs info + xm info - 1"
    using h by simp
  have v: "clear_value BoundaryG info user (au m) QQ PP = 0"
    using h by (simp add: clear_value_def)
  show ?thesis
    by (simp only: FormFunctionLocal_FF_closed assms r1 r2 r3 r4 r5 r6 r7 r8 c v if_True simp_thms)
qed

lemma FormFunctionLocal_FF_not_unknown:
  assumes "\<not> owned_unknown info PP QQ"
  shows "plap_mem.FF (snd (FormFunctionLocal BoundaryG info user m)) QQ PP =
     (if ys info \<le> QQ \<and> QQ \<le> ys info + ym info - 1 \<and> xs info \<le> PP \<and> PP \<le> xs info + xm info - 1
      then clear_value BoundaryG info user (au m) QQ PP else plap_mem.FF m QQ PP)"
  by (simp only: FormFunctionLocal_FF_closed assms if_False if_cancel)

lemma copy_node_alt:
  "FormFunctionLocal_ice_copy_node info k j m =
     (if on_boundary info j k
      then (let m1 = (if owned info j k then m\<lparr> ice_mem.FF := put (ice_mem.FF m) k j (aHin m k j) \<rparr>
                      else m)
            in m1\<lparr> aH := put (aH m1) k j 0 \<rparr>)
      else m\<lparr> aH := put (aH m) k j (aHin m k j) \<rparr>)"
  unfolding FormFunctionLocal_ice_copy_node_def on_boundary_def owned_def by (rule refl)

lemma copy_node_frame:
  "aHin (FormFunctionLocal_ice_copy_node info k j m) = aHin m"
  "ab (FormFunctionLocal_ice_copy_node info k j m) = ab m"
  "aqquad (FormFunctionLocal_ice_copy_node info k j m) = aqquad m"
  by (simp_all add: copy_node_alt Let_def)

lemma copy_node_FF:
  "ice_mem.FF (FormFunctionLocal_ice_copy_node info k j m) K J =
     (if K = k \<and> J = j \<and> on_boundary info j k \<and> owned info j k then aHin m K J
      else ice_mem.FF m K J)"
  by (simp add: copy_node_alt Let_def put_apply)

lemma copy_node_aH:
  "aH (FormFunctionLocal_ice_copy_node info k j m) K J =
     (if K = k \<and> J = j then (if on_boundary info j k then 0 else aHin m K J)
      else aH m K J)"
  by (simp add: copy_node_alt Let_def put_apply)

lemma skip_in_domain:
  "(j < 0 \<or> j > mx info - 1 \<or> k < 0 \<or> k > my info - 1) = (\<not> in_domain info j k)"
  by (auto simp add: in_domain_def)

lemma copy_row_Cons:
  "FormFunctionLocal_ice_copy_row info user k (j # js) m =
     (if \<not> in_domain info j k
      then FormFunctionLocal_ice_copy_row info user k js m
      else if check_admissible user \<and> aHin m k j < 0
      then (1, m)
      else FormFunctionLocal_ice_copy_row info user k js
             (FormFunctionLocal_ice_copy_node info k j m))"
  by (simp only: FormFunctionLocal_ice_copy_row.simps skip_in_domain)

lemma copy_row_frame:
  "aHin (snd (FormFunctionLocal_ice_copy_row info user k js m)) = aHin m \<and>
   ab (snd (FormFunctionLocal_ice_copy_row info user k js m)) = ab m \<and>
   aqquad (snd (FormFunctionLocal_ice_copy_row info user k js m)) = aqquad m"
proof (induction js arbitrary: m)
  case Nil
  show ?case by simp
next
  case (Cons j js)
  show ?case by (simp add: copy_row_Cons Cons copy_node_frame del: FormFunctionLocal_ice_copy_row.simps)
qed

lemma copy_row_code:
  "fst (FormFunctionLocal_ice_copy_row info user k js m) =
     (if check_admissible user \<and> (\<exists>j \<in> set js. in_domain info j k \<and> aHin m k j < 0)
      then 1 else 0)"
proof (induction js arbitrary: m)
  case Nil
  show ?case by simp
next
  case (Cons j js)
  show ?case
    by (auto simp add: copy_row_Cons Cons copy_node_frame simp del: FormFunctionLocal_ice_copy_row.simps)
qed

lemma copy_row_FF_any:
  "ice_mem.FF (snd (FormFunctionLocal_ice_copy_row info user k js m)) K J = ice_mem.FF m K J \<or>
   (on_boundary info J K \<and> owned info J K \<and>
    ice_mem.FF (snd (FormFunctionLocal_ice_copy_row info user k js m)) K J = aHin m K J)"
proof (induction js arbitrary: m)
  case Nil
  show ?case by simp
next
  case (Cons j js)
  have step: "ice_mem.FF (snd (FormFunctionLocal_ice_copy_row info user k js
                 (FormFunctionLocal_ice_copy_node info k j m))) K J = ice_mem.FF m K J \<or>
        (on_boundary info J K \<and> owned info J K \<and>
         ice_mem.FF (snd (FormFunctionLocal_ice_copy_row info user k js
                 (FormFunctionLocal_ice_copy_node info k j m))) K J = aHin m K J)"
    using Cons [of "FormFunctionLocal_ice_copy_node info k j m"]
    by (auto simp add: copy_node_frame copy_node_FF split: if_splits)
  show ?case
    using step Cons [of m] by (simp add: copy_row_Cons del: FormFunctionLocal_ice_copy_row.simps)
qed

lemma copy_row_ok:
  assumes "fst (FormFunctionLocal_ice_copy_row info user k js m) = 0"
  shows "ice_mem.FF (snd (FormFunctionLocal_ice_copy_row info user k js m)) K J =
           (if K = k \<and> J \<in> set js \<and> in_domain info J K \<and> on_boundary info J K \<and> owned info J K
            then aHin m K J else ice_mem.FF m K J) \<and>
         aH (snd (FormFunctionLocal_ice_copy_row info user k js m)) K J =
           (if K = k \<and> J \<in> set js \<and> in_domain info J K
            then (if on_boundary info J K then 0 else aHin m K J) else aH m K J)"
  using assms
proof (induction js arbitrary: m)
  case Nil
  show ?case by simp
next
  case (Cons j js)
  show ?case
  proof (cases "in_domain info j k")
    case False
    then have "\<not> (K = k \<and> J = j \<and> in_domain info J K)"
      by auto
    then show ?thesis using False Cons
      by (auto simp add: copy_row_Cons simp del: FormFunctionLocal_ice_copy_row.simps)
  next
    case True
    from True Cons.prems have ok: "\<not> (check_admissible user \<and> aHin m k j < 0)"
      by (auto simp add: copy_row_Cons simp del: FormFunctionLocal_ice_copy_row.simps split: if_splits)
    from True ok Cons.prems
    have rest: "fst (FormFunctionLocal_ice_copy_row info user k js
                       (FormFunctionLocal_ice_copy_node info k j m)) = 0"
      by (auto simp add: copy_row_Cons simp del: FormFunctionLocal_ice_copy_row.simps split: if_splits)
    show ?thesis
      using True ok Cons.IH [OF rest]
      by (auto simp add: copy_row_Cons copy_node_frame copy_node_FF copy_node_aH
               simp del: FormFunctionLocal_ice_copy_row.simps)
  qed
qed

lemma copy_Cons:
  "FormFunctionLocal_ice_copy info user (k # ks) js m =
     (if fst (FormFunctionLocal_ice_copy_row info user k js m) \<noteq> 0
      then FormFunctionLocal_ice_copy_row info user k js m
      else FormFunctionLocal_ice_copy info user ks js
             (snd (FormFunctionLocal_ice_copy_row info user k js m)))"
  by (simp add: case_prod_beta)

lemma copy_frame:
  "aHin (snd (FormFunctionLocal_ice_copy info user ks js m)) = aHin m \<and>
   ab (snd (FormFunctionLocal_ice_copy info user ks js m)) = ab m \<and>
   aqquad (snd (FormFunctionLocal_ice_copy info user ks js m)) = aqquad m"
proof (induction ks arbitrary: m)
  case Nil
  show ?case by simp
next
  case (Cons k ks)
  show ?case
    by (simp add: copy_Cons Cons copy_row_frame del: FormFunctionLocal_ice_copy.simps)
qed

lemma copy_code:
  "fst (FormFunctionLocal_ice_copy info user ks js m) =
     (if check_admissible user \<and>
         (\<exists>k \<in> set ks. \<exists>j \<in> set js. in_domain info j k \<and> aHin m k j < 0)
      then 1 else 0)"
proof (induction ks arbitrary: m)
  case Nil
  show ?case by simp
next
  case (Cons k ks)
  show ?case
    by (auto simp add: copy_Cons Cons copy_row_frame copy_row_code
             simp del: FormFunctionLocal_ice_copy.simps)
qed

lemma copy_FF_any:
  "ice_mem.FF (snd (FormFunctionLocal_ice_copy info user ks js m)) K J = ice_mem.FF m K J \<or>
   (on_boundary info J K \<and> owned info J K \<and>
    ice_mem.FF (snd (FormFunctionLocal_ice_copy info user ks js m)) K J = aHin m K J)"
proof (induction ks arbitrary: m)
  case Nil
  show ?case by simp
next
  case (Cons k ks)
  have row: "ice_mem.FF (snd (FormFunctionLocal_ice_copy_row info user k js m)) K J = ice_mem.FF m K J \<or>
     (on_boundary info J K \<and> owned info J K \<and>
      ice_mem.FF (snd (FormFunctionLocal_ice_copy_row info user k js m)) K J = aHin m K J)"
    by (rule copy_row_FF_any)
  have rest: "ice_mem.FF (snd (FormFunctionLocal_ice_copy info user ks js
                 (snd (FormFunctionLocal_ice_copy_row info user k js m)))) K J
        = ice_mem.FF (snd (FormFunctionLocal_ice_copy_row info user k js m)) K J \<or>
     (on_boundary info J K \<and> owned info J K \<and>
      ice_mem.FF (snd (FormFunctionLocal_ice_copy info user ks js
                 (snd (FormFunctionLocal_ice_copy_row info user k js m)))) K J = aHin m K J)"
    using Cons [of "snd (FormFunctionLocal_ice_copy_row info user k js m)"]
    by (simp add: copy_row_frame)
  show ?case
    using row rest
    by (auto simp add: copy_Cons simp del: FormFunctionLocal_ice_copy.simps)
qed

lemma copy_ok:
  assumes "fst (FormFunctionLocal_ice_copy info user ks js m) = 0"
  shows "ice_mem.FF (snd (FormFunctionLocal_ice_copy info user ks js m)) K J =
           (if K \<in> set ks \<and> J \<in> set js \<and> in_domain info J K \<and> on_boundary info J K \<and> owned info J K
            then aHin m K J else ice_mem.FF m K J) \<and>
         aH (snd (FormFunctionLocal_ice_copy info user ks js m)) K J =
           (if K \<in> set ks \<and> J \<in> set js \<and> in_domain info J K
            then (if on_boundary info J K then 0 else aHin m K J) else aH m K J)"
  using assms
proof (induction ks arbitrary: m)
  case Nil
  show ?case by simp
next
  case (Cons k ks)
  from Cons.prems have row0: "fst (FormFunctionLocal_ice_copy_row info user k js m) = 0"
    by (auto simp add: copy_Cons copy_row_code simp del: FormFunctionLocal_ice_copy.simps
             split: if_splits)
  from Cons.prems row0
  have rest0: "fst (FormFunctionLocal_ice_copy info user ks js
                      (snd (FormFunctionLocal_ice_copy_row info user k js m))) = 0"
    by (simp add: copy_Cons del: FormFunctionLocal_ice_copy.simps)
  show ?case
    using row0 Cons.IH [OF rest0] copy_row_ok [OF row0, of K J]
    by (auto simp add: copy_Cons copy_row_frame simp del: FormFunctionLocal_ice_copy.simps)
qed

lemma fold_inv: "(\<And>z m. R (f z m) = R m) \<Longrightarrow> R (fold f zs m) = R m"
  by (induction zs arbitrary: m) simp_all

lemma SIAflux_both:
  "SIAflux gH gb H Hup xdir True True user =
     Some (Some (DCS (sigma gH gb user) H user),
           Some (if xdir
                 then - DCS (sigma gH gb user) H user * x gH
                      + x (W (sigma gH gb user) gb) * PetscPowReal \<bar>Hup\<bar> (n_ice user + 2)
                 else - DCS (sigma gH gb user) H user * y gH
                      + y (W (sigma gH gb user) gb) * PetscPowReal \<bar>Hup\<bar> (n_ice user + 2)))"
  by (simp add: SIAflux_def Let_def)

lemma flux_frame:
  "aHin (FormFunctionLocal_ice_flux info user k j c m) = aHin m"
  "ice_mem.FF (FormFunctionLocal_ice_flux info user k j c m) = ice_mem.FF m"
  "aH (FormFunctionLocal_ice_flux info user k j c m) = aH m"
  "ab (FormFunctionLocal_ice_flux info user k j c m) = ab m"
  by (simp_all add: FormFunctionLocal_ice_flux_def SIAflux_both Let_def)

lemma element_frame:
  "aHin (FormFunctionLocal_ice_element info user k j m) = aHin m"
  "ice_mem.FF (FormFunctionLocal_ice_element info user k j m) = ice_mem.FF m"
  "aH (FormFunctionLocal_ice_element info user k j m) = aH m"
  "ab (FormFunctionLocal_ice_element info user k j m) = ab m"
  unfolding FormFunctionLocal_ice_element_def
  by (simp_all add: fold_inv flux_frame)

lemma elements_frame:
  "aHin (fold (\<lambda>k. fold (FormFunctionLocal_ice_element info user k) js) ks m) = aHin m"
  "ice_mem.FF (fold (\<lambda>k. fold (FormFunctionLocal_ice_element info user k) js) ks m) = ice_mem.FF m"
  "aH (fold (\<lambda>k. fold (FormFunctionLocal_ice_element info user k) js) ks m) = aH m"
  "ab (fold (\<lambda>k. fold (FormFunctionLocal_ice_element info user k) js) ks m) = ab m"
  by (simp_all add: fold_inv element_frame)

lemma node_value_cong:
  "aH m' = aH m \<Longrightarrow> ab m' = ab m \<Longrightarrow> aqquad m' = aqquad m
     \<Longrightarrow> node_value info user m' k j = node_value info user m k j"
  by (simp add: node_value_def FormFunctionLocal_ice_M_def)

lemma node_inner:
  "aHin (fold (\<lambda>s m'. m'\<lparr> ice_mem.FF := put (ice_mem.FF m') k j
             (ice_mem.FF m' k j + co ! s * aqquad m' (ce ! s) (k + ke ! s) (j + je ! s)) \<rparr>) ss m) = aHin m \<and>
   aH (fold (\<lambda>s m'. m'\<lparr> ice_mem.FF := put (ice_mem.FF m') k j
             (ice_mem.FF m' k j + co ! s * aqquad m' (ce ! s) (k + ke ! s) (j + je ! s)) \<rparr>) ss m) = aH m \<and>
   ab (fold (\<lambda>s m'. m'\<lparr> ice_mem.FF := put (ice_mem.FF m') k j
             (ice_mem.FF m' k j + co ! s * aqquad m' (ce ! s) (k + ke ! s) (j + je ! s)) \<rparr>) ss m) = ab m \<and>
   aqquad (fold (\<lambda>s m'. m'\<lparr> ice_mem.FF := put (ice_mem.FF m') k j
             (ice_mem.FF m' k j + co ! s * aqquad m' (ce ! s) (k + ke ! s) (j + je ! s)) \<rparr>) ss m) = aqquad m \<and>
   ice_mem.FF (fold (\<lambda>s m'. m'\<lparr> ice_mem.FF := put (ice_mem.FF m') k j
             (ice_mem.FF m' k j + co ! s * aqquad m' (ce ! s) (k + ke ! s) (j + je ! s)) \<rparr>) ss m) K J =
     (if K = k \<and> J = j
      then ice_mem.FF m k j
           + sum_list (map (\<lambda>s. co ! s * aqquad m (ce ! s) (k + ke ! s) (j + je ! s)) ss)
      else ice_mem.FF m K J)"
  by (induction ss arbitrary: m) (simp_all add: put_apply)

lemma node_alt:
  "FormFunctionLocal_ice_node info user k j m =
     (if on_boundary info j k then m
      else fold (\<lambda>s m'. m'\<lparr> ice_mem.FF := put (ice_mem.FF m') k j
                          (ice_mem.FF m' k j + coeff info user ! s
                             * aqquad m' (ce ! s) (k + ke ! s) (j + je ! s)) \<rparr>)
                [0..<8]
                (m\<lparr> ice_mem.FF := put (ice_mem.FF m) k j
                       (- FormFunctionLocal_ice_M info user m k j
                          * (L user / real_of_int (mx info - 1))
                          * (L user / real_of_int (my info - 1))) \<rparr>))"
  unfolding FormFunctionLocal_ice_node_def on_boundary_def Let_def by (rule refl)

lemma node_frame:
  "aHin (FormFunctionLocal_ice_node info user k j m) = aHin m"
  "aH (FormFunctionLocal_ice_node info user k j m) = aH m"
  "ab (FormFunctionLocal_ice_node info user k j m) = ab m"
  "aqquad (FormFunctionLocal_ice_node info user k j m) = aqquad m"
  by (simp_all add: node_alt node_inner)

lemma node_FF:
  "ice_mem.FF (FormFunctionLocal_ice_node info user k j m) K J =
     (if K = k \<and> J = j \<and> \<not> on_boundary info J K then node_value info user m K J
      else ice_mem.FF m K J)"
  by (auto simp add: node_alt node_inner node_value_def cv_flux_def put_apply)

lemma node_row:
  "ice_mem.FF (fold (FormFunctionLocal_ice_node info user k) js m) K J =
     (if K = k \<and> J \<in> set js \<and> \<not> on_boundary info J K then node_value info user m K J
      else ice_mem.FF m K J)"
proof (induction js arbitrary: m)
  case Nil
  show ?case by simp
next
  case (Cons j js)
  have "node_value info user (FormFunctionLocal_ice_node info user k j m) K J
        = node_value info user m K J"
    by (rule node_value_cong) (simp_all add: node_frame)
  then show ?case
    by (auto simp add: Cons node_FF)
qed

lemma node_row_frame:
  "aHin (fold (FormFunctionLocal_ice_node info user k) js m) = aHin m"
  "aH (fold (FormFunctionLocal_ice_node info user k) js m) = aH m"
  "ab (fold (FormFunctionLocal_ice_node info user k) js m) = ab m"
  "aqquad (fold (FormFunctionLocal_ice_node info user k) js m) = aqquad m"
  by (simp_all add: fold_inv node_frame)

lemma node_loops:
  "ice_mem.FF (fold (\<lambda>k. fold (FormFunctionLocal_ice_node info user k) js) ks m) K J =
     (if K \<in> set ks \<and> J \<in> set js \<and> \<not> on_boundary info J K then node_value info user m K J
      else ice_mem.FF m K J)"
proof (induction ks arbitrary: m)
  case Nil
  show ?case by simp
next
  case (Cons k ks)
  have "node_value info user (fold (FormFunctionLocal_ice_node info user k) js m) K J
        = node_value info user m K J"
    by (rule node_value_cong) (simp_all add: node_row_frame)
  then show ?case
    by (auto simp add: Cons node_row)
qed

lemma node_loops_frame:
  "aHin (fold (\<lambda>k. fold (FormFunctionLocal_ice_node info user k) js) ks m) = aHin m"
  "aH (fold (\<lambda>k. fold (FormFunctionLocal_ice_node info user k) js) ks m) = aH m"
  "ab (fold (\<lambda>k. fold (FormFunctionLocal_ice_node info user k) js) ks m) = ab m"
  "aqquad (fold (\<lambda>k. fold (FormFunctionLocal_ice_node info user k) js) ks m) = aqquad m"
  by (simp_all add: fold_inv node_row_frame)

lemma ice_split:
  "FormFunctionLocal_ice info user m0 =
     (let r = FormFunctionLocal_ice_copy info user
                [ys info - 1 .. ys info + ym info] [xs info - 1 .. xs info + xm info] m0
      in if fst r \<noteq> 0 then r
         else (0,
           fold (\<lambda>k. fold (FormFunctionLocal_ice_node info user k)
                        [xs info .. xs info + xm info - 1])
                [ys info .. ys info + ym info - 1]
             (fold (\<lambda>k. fold (FormFunctionLocal_ice_element info user k)
                          [xs info - 1 .. xs info + xm info - 1])
                   [ys info - 1 .. ys info + ym info - 1]
                (if verif user then (snd r)\<lparr> ab := (\<lambda>k j. 0) \<rparr>
                 else (snd r)\<lparr> ab := FormBedLocal info 1 (ab (snd r)) user \<rparr>))))"
  by (simp add: FormFunctionLocal_ice_def Let_def case_prod_beta)

lemma ice_code:
  "fst (FormFunctionLocal_ice info user m) = (if inadmissible info user (aHin m) then 1 else 0)"
  by (simp add: ice_split Let_def copy_code inadmissible_def)

lemma ice_aHin: "aHin (snd (FormFunctionLocal_ice info user m)) = aHin m"
  by (simp add: ice_split Let_def node_loops_frame elements_frame copy_frame)

lemma ice_error:
  assumes "inadmissible info user (aHin m)"
  shows "snd (FormFunctionLocal_ice info user m) =
           snd (FormFunctionLocal_ice_copy info user
                  [ys info - 1 .. ys info + ym info] [xs info - 1 .. xs info + xm info] m)"
proof -
  have "fst (FormFunctionLocal_ice_copy info user
                [ys info - 1 .. ys info + ym info] [xs info - 1 .. xs info + xm info] m) = 1"
    using assms by (simp add: copy_code inadmissible_def)
  then show ?thesis by (simp add: ice_split Let_def)
qed


lemma ice_ok_boundary:
  assumes "\<not> inadmissible info user (aHin m)" "owned info J K" "on_boundary info J K"
      "in_domain info J K"
  shows "ice_mem.FF (snd (FormFunctionLocal_ice info user m)) K J = aHin m K J"
proof -
  define m1 where "m1 = snd (FormFunctionLocal_ice_copy info user
                [ys info - 1 .. ys info + ym info] [xs info - 1 .. xs info + xm info] m)"
  have ok: "fst (FormFunctionLocal_ice_copy info user
                [ys info - 1 .. ys info + ym info] [xs info - 1 .. xs info + xm info] m) = 0"
    using assms(1) by (simp add: copy_code inadmissible_def)
  have rng: "K \<in> set [ys info - 1 .. ys info + ym info]" "J \<in> set [xs info - 1 .. xs info + xm info]"
    using assms(2) by (simp_all add: owned_def)
  have f1: "ice_mem.FF m1 K J = aHin m K J"
    unfolding m1_def using copy_ok [OF ok, of K J] rng assms(2,3,4) by simp
  have "ice_mem.FF (snd (FormFunctionLocal_ice info user m)) K J = ice_mem.FF m1 K J"
    using ok assms(3)
    by (simp add: ice_split Let_def node_loops elements_frame m1_def)
  then show ?thesis using f1 by simp
qed

lemma ice_ok_aH:
  assumes "\<not> inadmissible info user (aHin m)"
      "ys info - 1 \<le> K" "K \<le> ys info + ym info" "xs info - 1 \<le> J" "J \<le> xs info + xm info"
      "in_domain info J K"
  shows "aH (snd (FormFunctionLocal_ice info user m)) K J
           = (if on_boundary info J K then 0 else aHin m K J)"
proof -
  have ok: "fst (FormFunctionLocal_ice_copy info user
                [ys info - 1 .. ys info + ym info] [xs info - 1 .. xs info + xm info] m) = 0"
    using assms(1) by (simp add: copy_code inadmissible_def)
  have rng: "K \<in> set [ys info - 1 .. ys info + ym info]" "J \<in> set [xs info - 1 .. xs info + xm info]"
    using assms(2-5) by simp_all
  have "aH (snd (FormFunctionLocal_ice info user m)) K J
        = aH (snd (FormFunctionLocal_ice_copy info user
                [ys info - 1 .. ys info + ym info] [xs info - 1 .. xs info + xm info] m)) K J"
    using ok by (simp add: ice_split Let_def node_loops_frame elements_frame)
  then show ?thesis
    using copy_ok [OF ok, of K J] rng assms(6) by simp
qed




lemma quad_obj: "obj (FormFunctionLocal_quad info user l f u PP QQ n) = obj n"
  unfolding FormFunctionLocal_quad_def Let_def
  by (rule fold_inv, rule fold_inv) simp

lemma corner_obj: "obj (FormFunctionLocal_corner info user i' j' f u l n) = obj n"
  by (simp add: FormFunctionLocal_corner_def Let_def quad_obj)

lemma element_obj: "obj (FormFunctionLocal_element BoundaryG info user j' i' n) = obj n"
  unfolding FormFunctionLocal_element_def Let_def
  by (rule fold_inv) (rule corner_obj)

lemma clear_obj: "obj (FormFunctionLocal_clear BoundaryG info user j' i' n) = obj n"
  by (simp add: FormFunctionLocal_clear_def Let_def)

lemma FormFunctionLocal_obj: "obj (snd (FormFunctionLocal BoundaryG info user m)) = obj m"
proof -
  have a: "obj (fold (\<lambda>j. fold (FormFunctionLocal_clear BoundaryG info user j) is) js n) = obj n" for "is" js n
    by (rule fold_inv, rule fold_inv) (rule clear_obj)
  have b: "obj (fold (\<lambda>j. fold (FormFunctionLocal_element BoundaryG info user j) is) js n) = obj n" for "is" js n
    by (rule fold_inv, rule fold_inv) (rule element_obj)
  show ?thesis
    by (simp only: FormFunctionLocal_def Let_def snd_conv a b)
qed

lemma FormObjectiveLocal_frame:
  "au (snd (FormObjectiveLocal BoundaryG info user others m)) = au m"
  "plap_mem.FF (snd (FormObjectiveLocal BoundaryG info user others m)) = plap_mem.FF m"
  by (simp_all add: FormObjectiveLocal_def Let_def)
lemma FormBedLocal_node_at:
  "FormBedLocal_node info user k j a K J =
     (if K = k \<and> J = j \<and> bed_node info j k then bed_value info user j k else a K J)"
proof -
  have s: "(j < 0 \<or> j \<ge> mx info - 1 \<or> k < 0 \<or> k \<ge> my info - 1) = (\<not> bed_node info j k)"
    by (auto simp add: bed_node_def)
  show ?thesis
    unfolding FormBedLocal_node_def Let_def s
    by (simp add: put_apply bed_value_def)
qed

lemma FormBedLocal_row_at:
  "fold (FormBedLocal_node info user k) js a K J =
     (if K = k \<and> J \<in> set js \<and> bed_node info J K then bed_value info user J K else a K J)"
proof (induction js arbitrary: a)
  case Nil
  show ?case by simp
next
  case (Cons j js)
  have "fold (FormBedLocal_node info user k) (j # js) a K J
        = fold (FormBedLocal_node info user k) js (FormBedLocal_node info user k j a) K J"
    by simp
  also have "\<dots> = (if K = k \<and> J \<in> set js \<and> bed_node info J K then bed_value info user J K
                    else FormBedLocal_node info user k j a K J)"
    by (rule Cons)
  finally have F: "fold (FormBedLocal_node info user k) (j # js) a K J
      = (if K = k \<and> J \<in> set js \<and> bed_node info J K then bed_value info user J K
         else FormBedLocal_node info user k j a K J)" .
  show ?case unfolding F by (auto simp add: FormBedLocal_node_at)
qed

lemma FormBedLocal_rows_at:
  "fold (\<lambda>k. fold (FormBedLocal_node info user k) js) ks a K J =
     (if K \<in> set ks \<and> J \<in> set js \<and> bed_node info J K then bed_value info user J K else a K J)"
proof (induction ks arbitrary: a)
  case Nil
  show ?case by simp
next
  case (Cons k ks)
  have "fold (\<lambda>k. fold (FormBedLocal_node info user k) js) (k # ks) a K J
        = fold (\<lambda>k. fold (FormBedLocal_node info user k) js) ks
            (fold (FormBedLocal_node info user k) js a) K J"
    by simp
  also have "\<dots> = (if K \<in> set ks \<and> J \<in> set js \<and> bed_node info J K then bed_value info user J K
                    else fold (FormBedLocal_node info user k) js a K J)"
    by (rule Cons)
  finally have F: "fold (\<lambda>k. fold (FormBedLocal_node info user k) js) (k # ks) a K J
      = (if K \<in> set ks \<and> J \<in> set js \<and> bed_node info J K then bed_value info user J K
         else fold (FormBedLocal_node info user k) js a K J)" .
  show ?case unfolding F by (auto simp add: FormBedLocal_row_at)
qed

lemma FormBedLocal_at:
  "FormBedLocal info stencilwidth a user K J =
     (if K \<in> set [ys info - stencilwidth .. ys info + ym info + stencilwidth - 1]
         \<and> J \<in> set [xs info - stencilwidth .. xs info + xm info + stencilwidth - 1]
         \<and> bed_node info J K
      then bed_value info user J K else a K J)"
  unfolding FormBedLocal_def by (rule FormBedLocal_rows_at)

lemma ice_ab:
  assumes "fst (FormFunctionLocal_ice info user m) = 0"
  shows "ab (snd (FormFunctionLocal_ice info user m)) =
           (if verif user then (\<lambda>k j. 0) else FormBedLocal info 1 (ab m) user)"
proof -
  from assms have "\<not> inadmissible info user (aHin m)"
    by (simp add: ice_code split: if_splits)
  then have ok: "fst (FormFunctionLocal_ice_copy info user
                [ys info - 1 .. ys info + ym info] [xs info - 1 .. xs info + xm info] m) = 0"
    by (simp add: copy_code inadmissible_def)
  show ?thesis
    using ok by (simp add: ice_split Let_def node_loops_frame elements_frame copy_frame)
qed

lemma copy_row_stop:
  assumes "check_admissible user" "in_domain info j k" "aHin m k j < 0"
      and "\<forall>j' \<in> set pre. \<not> (in_domain info j' k \<and> aHin m k j' < 0)"
  shows "FormFunctionLocal_ice_copy_row info user k (pre @ j # post) m =
           (1, snd (FormFunctionLocal_ice_copy_row info user k pre m))"
  using assms(3,4)
proof (induction pre arbitrary: m)
  case Nil
  then show ?case
    using assms(1,2) by (simp add: copy_row_Cons del: FormFunctionLocal_ice_copy_row.simps(2))
next
  case (Cons a pre)
  show ?case
  proof (cases "in_domain info a k")
    case False
    have "\<forall>j' \<in> set pre. \<not> (in_domain info j' k \<and> aHin m k j' < 0)"
      using Cons.prems(2) by simp
    then have "FormFunctionLocal_ice_copy_row info user k (pre @ j # post) m =
           (1, snd (FormFunctionLocal_ice_copy_row info user k pre m))"
      using Cons.prems(1) by (rule Cons.IH [rotated])
    then show ?thesis
      using False by (simp add: copy_row_Cons del: FormFunctionLocal_ice_copy_row.simps(2))
  next
    case True
    define m' where "m' = FormFunctionLocal_ice_copy_node info k a m"
    have a': "aHin m' = aHin m" by (simp add: m'_def copy_node_frame)
    from True Cons.prems(2) have ok: "\<not> aHin m k a < 0" by simp
    have "aHin m' k j < 0" using Cons.prems(1) by (simp add: a')
    moreover have "\<forall>j' \<in> set pre. \<not> (in_domain info j' k \<and> aHin m' k j' < 0)"
      using Cons.prems(2) by (simp add: a')
    ultimately have "FormFunctionLocal_ice_copy_row info user k (pre @ j # post) m' =
           (1, snd (FormFunctionLocal_ice_copy_row info user k pre m'))"
      by (rule Cons.IH)
    then show ?thesis
      using True ok
      by (simp add: copy_row_Cons m'_def del: FormFunctionLocal_ice_copy_row.simps(2))
  qed
qed

lemma copy_stop:
  assumes "check_admissible user" "in_domain info j k" "aHin m k j < 0"
      and "\<forall>j' \<in> set pre. \<not> (in_domain info j' k \<and> aHin m k j' < 0)"
      and "\<forall>k' \<in> set kpre. \<forall>j' \<in> set (pre @ j # post).
              \<not> (in_domain info j' k' \<and> aHin m k' j' < 0)"
  shows "FormFunctionLocal_ice_copy info user (kpre @ k # kpost) (pre @ j # post) m =
           (1, snd (FormFunctionLocal_ice_copy_row info user k pre
                      (snd (FormFunctionLocal_ice_copy info user kpre (pre @ j # post) m))))"
  using assms(3,4,5)
proof (induction kpre arbitrary: m)
  case Nil
  have "FormFunctionLocal_ice_copy_row info user k (pre @ j # post) m =
           (1, snd (FormFunctionLocal_ice_copy_row info user k pre m))"
    using assms(1,2) Nil.prems(1,2) by (rule copy_row_stop)
  then show ?case
    by (simp add: copy_Cons del: FormFunctionLocal_ice_copy.simps(2))
next
  case (Cons a kpre)
  define m' where "m' = snd (FormFunctionLocal_ice_copy_row info user a (pre @ j # post) m)"
  have a': "aHin m' = aHin m" by (simp add: m'_def copy_row_frame)
  have row0: "fst (FormFunctionLocal_ice_copy_row info user a (pre @ j # post) m) = 0"
    using Cons.prems(3) by (simp only: copy_row_code) auto
  have "FormFunctionLocal_ice_copy info user (kpre @ k # kpost) (pre @ j # post) m' =
           (1, snd (FormFunctionLocal_ice_copy_row info user k pre
                      (snd (FormFunctionLocal_ice_copy info user kpre (pre @ j # post) m'))))"
  proof (rule Cons.IH)
    show "aHin m' k j < 0" using Cons.prems(1) by (simp add: a')
    show "\<forall>j' \<in> set pre. \<not> (in_domain info j' k \<and> aHin m' k j' < 0)"
      using Cons.prems(2) by (simp add: a')
    show "\<forall>k' \<in> set kpre. \<forall>j' \<in> set (pre @ j # post).
              \<not> (in_domain info j' k' \<and> aHin m' k' j' < 0)"
      using Cons.prems(3) by (simp add: a')
  qed
  then show ?case
    using row0
    by (simp add: copy_Cons m'_def del: FormFunctionLocal_ice_copy.simps(2))
qed

lemma ice_error_state:
  assumes c: "check_admissible user"
      and r: "ys info - 1 \<le> k" "k \<le> ys info + ym info" "xs info - 1 \<le> j" "j \<le> xs info + xm info"
      and d: "in_domain info j k"
      and n: "aHin m k j < 0"
      and f: "\<forall>K J. copied_before info k j K J \<longrightarrow> 0 \<le> aHin m K J"
  shows "ice_mem.FF (snd (FormFunctionLocal_ice info user m)) K J =
           (if copied_before info k j K J \<and> on_boundary info J K \<and> owned info J K
            then aHin m K J else ice_mem.FF m K J)"
    and "aH (snd (FormFunctionLocal_ice info user m)) K J =
           (if copied_before info k j K J
            then (if on_boundary info J K then 0 else aHin m K J) else aH m K J)"
proof -
  define js where "js = [xs info - 1 .. xs info + xm info]"
  define pre where "pre = [xs info - 1 .. j - 1]"
  define post where "post = [j + 1 .. xs info + xm info]"
  define kpre where "kpre = [ys info - 1 .. k - 1]"
  define kpost where "kpost = [k + 1 .. ys info + ym info]"
  have js: "js = pre @ j # post"
    unfolding js_def pre_def post_def using r(3,4) by (rule upto_split3)
  have ks: "[ys info - 1 .. ys info + ym info] = kpre @ k # kpost"
    unfolding kpre_def kpost_def using r(1,2) by (rule upto_split3)
  have p1: "\<forall>j' \<in> set pre. \<not> (in_domain info j' k \<and> aHin m k j' < 0)"
  proof
    fix j' assume "j' \<in> set pre"
    then have "xs info - 1 \<le> j'" "j' < j" by (simp_all add: pre_def)
    then have "in_domain info j' k \<longrightarrow> copied_before info k j k j'"
      using r by (simp add: copied_before_def)
    with f show "\<not> (in_domain info j' k \<and> aHin m k j' < 0)" by fastforce
  qed
  have p2: "\<forall>k' \<in> set kpre. \<forall>j' \<in> set js. \<not> (in_domain info j' k' \<and> aHin m k' j' < 0)"
  proof (intro ballI)
    fix k' j' assume "k' \<in> set kpre" "j' \<in> set js"
    then have "ys info - 1 \<le> k'" "k' < k" "xs info - 1 \<le> j'" "j' \<le> xs info + xm info"
      by (simp_all add: kpre_def js_def)
    then have "in_domain info j' k' \<longrightarrow> copied_before info k j k' j'"
      by (simp add: copied_before_def)
    with f show "\<not> (in_domain info j' k' \<and> aHin m k' j' < 0)" by fastforce
  qed
  define m1 where "m1 = snd (FormFunctionLocal_ice_copy info user kpre js m)"
  define m2 where "m2 = snd (FormFunctionLocal_ice_copy_row info user k pre m1)"
  have a1: "aHin m1 = aHin m" by (simp add: m1_def copy_frame)
  have stop: "FormFunctionLocal_ice_copy info user (kpre @ k # kpost) (pre @ j # post) m =
           (1, snd (FormFunctionLocal_ice_copy_row info user k pre
                      (snd (FormFunctionLocal_ice_copy info user kpre (pre @ j # post) m))))"
    using c d n p1 p2 [unfolded js] by (rule copy_stop)
  have res: "snd (FormFunctionLocal_ice info user m) = m2"
    by (simp add: ice_split Let_def ks js_def [symmetric] js stop m2_def m1_def)
  have ok1: "fst (FormFunctionLocal_ice_copy info user kpre js m) = 0"
    using p2 by (simp only: copy_code) auto
  have ok2: "fst (FormFunctionLocal_ice_copy_row info user k pre m1) = 0"
    using p1 by (simp only: copy_row_code a1) auto
  note s1 = copy_ok [OF ok1, of K J, folded m1_def]
  note s2 = copy_row_ok [OF ok2, of K J, folded m2_def, unfolded a1]
  have in1: "(K \<in> set kpre \<and> J \<in> set js \<and> in_domain info J K) \<or>
             (K = k \<and> J \<in> set pre \<and> in_domain info J K) \<longleftrightarrow> copied_before info k j K J"
    using r by (auto simp add: copied_before_def kpre_def js_def pre_def)
  have ex: "\<not> (K \<in> set kpre \<and> K = k)" by (simp add: kpre_def)
  show "ice_mem.FF (snd (FormFunctionLocal_ice info user m)) K J =
           (if copied_before info k j K J \<and> on_boundary info J K \<and> owned info J K
            then aHin m K J else ice_mem.FF m K J)"
    using s1 s2 in1 ex unfolding res by (cases "K = k") auto
  show "aH (snd (FormFunctionLocal_ice info user m)) K J =
           (if copied_before info k j K J
            then (if on_boundary info J K then 0 else aHin m K J) else aH m K J)"
    using s1 s2 in1 ex unfolding res by (cases "K = k") auto
qed

lemma first_negative_exists:
  fixes a :: grid
  assumes "ys info - 1 \<le> k" "k \<le> ys info + ym info" "xs info - 1 \<le> j" "j \<le> xs info + xm info"
      "in_domain info j k" "a k j < 0"
  shows "\<exists>k0 j0. ys info - 1 \<le> k0 \<and> k0 \<le> ys info + ym info
            \<and> xs info - 1 \<le> j0 \<and> j0 \<le> xs info + xm info
            \<and> in_domain info j0 k0 \<and> a k0 j0 < 0
            \<and> (\<forall>K J. copied_before info k0 j0 K J \<longrightarrow> 0 \<le> a K J)"
proof -
  define bad where "bad = (\<lambda>K J. xs info - 1 \<le> J \<and> J \<le> xs info + xm info
                              \<and> in_domain info J K \<and> a K J < 0)"
  define Ks where "Ks = {K. ys info - 1 \<le> K \<and> K \<le> ys info + ym info \<and> (\<exists>J. bad K J)}"
  have fK: "finite Ks"
    by (rule finite_subset [of _ "{ys info - 1 .. ys info + ym info}"]) (auto simp add: Ks_def)
  have "k \<in> Ks" using assms by (auto simp add: Ks_def bad_def)
  then have neK: "Ks \<noteq> {}" by auto
  define k0 where "k0 = Min Ks"
  have k0in: "k0 \<in> Ks" unfolding k0_def using fK neK by (rule Min_in)
  have k0le: "K \<in> Ks \<Longrightarrow> k0 \<le> K" for K unfolding k0_def using fK by (rule Min_le)
  define Js where "Js = {J. bad k0 J}"
  have fJ: "finite Js"
    by (rule finite_subset [of _ "{xs info - 1 .. xs info + xm info}"]) (auto simp add: Js_def bad_def)
  have neJ: "Js \<noteq> {}" using k0in by (auto simp add: Ks_def Js_def)
  define j0 where "j0 = Min Js"
  have j0in: "j0 \<in> Js" unfolding j0_def using fJ neJ by (rule Min_in)
  have j0le: "J \<in> Js \<Longrightarrow> j0 \<le> J" for J unfolding j0_def using fJ by (rule Min_le)
  have first: "0 \<le> a K J" if cb: "copied_before info k0 j0 K J" for K J
  proof (rule ccontr)
    assume "\<not> 0 \<le> a K J"
    then have neg: "a K J < 0" by simp
    from cb have b: "bad K J" using neg by (simp add: copied_before_def bad_def)
    from cb have "K < k0 \<or> (K = k0 \<and> J < j0)" by (simp add: copied_before_def)
    then show False
    proof
      assume lt: "K < k0"
      from cb k0in lt have "K \<in> Ks" using b by (auto simp add: Ks_def copied_before_def)
      then have "k0 \<le> K" by (rule k0le)
      with lt show False by simp
    next
      assume e: "K = k0 \<and> J < j0"
      with b have "J \<in> Js" by (simp add: Js_def)
      then have "j0 \<le> J" by (rule j0le)
      with e show False by simp
    qed
  qed
  from k0in j0in first show ?thesis
    by (auto simp add: Ks_def Js_def bad_def)
qed

lemma inadmissibleI:
  assumes "check_admissible user"
      "ys info - 1 \<le> k" "k \<le> ys info + ym info" "xs info - 1 \<le> j" "j \<le> xs info + xm info"
      "in_domain info j k" "a k j < 0"
  shows "inadmissible info user a"
proof -
  have "k \<in> set [ys info - 1 .. ys info + ym info]" "j \<in> set [xs info - 1 .. xs info + xm info]"
    using assms(2-5) by simp_all
  then have "\<exists>k \<in> set [ys info - 1 .. ys info + ym info].
               \<exists>j \<in> set [xs info - 1 .. xs info + xm info]. in_domain info j k \<and> a k j < 0"
    using assms(6,7) by blast
  with assms(1) show ?thesis by (simp only: inadmissible_def simp_thms)
qed

section \<open>The claims\<close>

subsection \<open>C7: the bilinear shape functions\<close>

text \<open>
  Claim C7. On the reference square the four functions \<^verbatim>\<open>chi\<close> add up to 1, and \<^verbatim>\<open>chi(L,.)\<close>
  is 1 at corner \<^verbatim>\<open>L\<close> of the reference element and 0 at the three other corners.
\<close>

theorem chi_partition_of_unity:
  "(- 1 \<le> a \<and> a \<le> 1 \<and> - 1 \<le> b \<and> b \<le> 1
      \<longrightarrow> chi 0 a b + chi 1 a b + chi 2 a b + chi 3 a b = 1)
   \<and> (\<forall>l \<in> {0..<4}. \<forall>m \<in> {0..<4}. chi l (xiL ! m) (etaL ! m) = (if l = m then 1 else 0))"
proof -
  have sum: "chi 0 a b + chi 1 a b + chi 2 a b + chi 3 a b = 1"
    by (simp add: chi_def xiL_def etaL_def field_simps)
  have "{0..<4} = {0, 1, 2, 3::nat}" by auto
  then have "\<forall>l \<in> {0..<4}. \<forall>m \<in> {0..<4}. chi l (xiL ! m) (etaL ! m) = (if l = m then 1 else 0)"
    by (simp add: chi_def xiL_def etaL_def)
  with sum show ?thesis by blast
qed

theorem chi_partition_of_unity_witness:
  "- 1 \<le> (1 / 2 :: real) \<and> (1 / 2 :: real) \<le> 1 \<and> - 1 \<le> (- 1 / 3 :: real) \<and> (- 1 / 3 :: real) \<le> 1
   \<and> chi 0 (1 / 2) (- 1 / 3) + chi 1 (1 / 2) (- 1 / 3) + chi 2 (1 / 2) (- 1 / 3)
       + chi 3 (1 / 2) (- 1 / 3) = 1
   \<and> (2::nat) \<in> {0..<4} \<and> (3::nat) \<in> {0..<4}
   \<and> chi 2 (xiL ! 2) (etaL ! 2) = 1 \<and> chi 2 (xiL ! 3) (etaL ! 3) = 0"
proof -
  have h: "- 1 \<le> (1 / 2 :: real) \<and> (1 / 2 :: real) \<le> 1 \<and> - 1 \<le> (- 1 / 3 :: real) \<and> (- 1 / 3 :: real) \<le> 1"
    by simp
  have m: "(2::nat) \<in> {0..<4}" "(3::nat) \<in> {0..<4}" by simp_all
  note t = chi_partition_of_unity [of "1 / 2" "- 1 / 3"]
  from t h have s: "chi 0 (1 / 2) (- 1 / 3) + chi 1 (1 / 2) (- 1 / 3) + chi 2 (1 / 2) (- 1 / 3)
       + chi 3 (1 / 2) (- 1 / 3) = 1"
    by blast
  from t m have "chi 2 (xiL ! 2) (etaL ! 2) = (if (2::nat) = 2 then 1 else 0)"
      "chi 2 (xiL ! 3) (etaL ! 3) = (if (2::nat) = 3 then 1 else 0)"
    by blast+
  then have k: "chi 2 (xiL ! 2) (etaL ! 2) = 1" "chi 2 (xiL ! 3) (etaL ! 3) = 0"
    by simp_all
  show ?thesis using h m s k by blast
qed

subsection \<open>C1: an interior residual is the sum over the four elements at the node\<close>

text \<open>
  Claim C1. For an interior node \<^verbatim>\<open>(PP,QQ)\<close> that the calling process owns, the residual
  \<^verbatim>\<open>FF[QQ][PP]\<close> that \<^verbatim>\<open>FormFunctionLocal\<close> of the p-Laplacian leaves is the sum of the
  quadrature contributions of the four elements that have the node as a corner: element
  \<^verbatim>\<open>(PP,QQ)\<close> at its corner 0, \<^verbatim>\<open>(PP+1,QQ)\<close> at corner 1, \<^verbatim>\<open>(PP,QQ+1)\<close> at corner 3 and
  \<^verbatim>\<open>(PP+1,QQ+1)\<close> at corner 2, each once and nothing else. At a node outside the owned
  rectangle the process leaves the residual array as it was.
\<close>

theorem interior_residual_four_elements:
  "(0 < PP \<and> PP < mx info - 1 \<and> 0 < QQ \<and> QQ < my info - 1
      \<and> xs info \<le> PP \<and> PP < xs info + xm info \<and> ys info \<le> QQ \<and> QQ < ys info + ym info
    \<longrightarrow> plap_mem.FF (snd (FormFunctionLocal BoundaryG info user m)) QQ PP =
          0 + element_contribution BoundaryG info user (au m) PP QQ 0
            + element_contribution BoundaryG info user (au m) (PP + 1) QQ 1
            + element_contribution BoundaryG info user (au m) PP (QQ + 1) 3
            + element_contribution BoundaryG info user (au m) (PP + 1) (QQ + 1) 2)
   \<and> (\<not> (xs info \<le> PP \<and> PP < xs info + xm info \<and> ys info \<le> QQ \<and> QQ < ys info + ym info)
    \<longrightarrow> plap_mem.FF (snd (FormFunctionLocal BoundaryG info user m)) QQ PP = plap_mem.FF m QQ PP)"
proof (intro conjI impI)
  assume "0 < PP \<and> PP < mx info - 1 \<and> 0 < QQ \<and> QQ < my info - 1
      \<and> xs info \<le> PP \<and> PP < xs info + xm info \<and> ys info \<le> QQ \<and> QQ < ys info + ym info"
  then have "owned_unknown info PP QQ" by (simp add: owned_unknown_def)
  then show "plap_mem.FF (snd (FormFunctionLocal BoundaryG info user m)) QQ PP =
          0 + element_contribution BoundaryG info user (au m) PP QQ 0
            + element_contribution BoundaryG info user (au m) (PP + 1) QQ 1
            + element_contribution BoundaryG info user (au m) PP (QQ + 1) 3
            + element_contribution BoundaryG info user (au m) (PP + 1) (QQ + 1) 2"
    by (rule FormFunctionLocal_FF_owned_unknown)
next
  assume n: "\<not> (xs info \<le> PP \<and> PP < xs info + xm info \<and> ys info \<le> QQ \<and> QQ < ys info + ym info)"
  then have "\<not> owned_unknown info PP QQ" by (auto simp add: owned_unknown_def)
  then show "plap_mem.FF (snd (FormFunctionLocal BoundaryG info user m)) QQ PP = plap_mem.FF m QQ PP"
    using n by (auto simp add: FormFunctionLocal_FF_not_unknown)
qed

theorem interior_residual_four_elements_witness:
  "(0 < (2::int) \<and> 2 < mx grid5 - 1 \<and> 0 < (3::int) \<and> 3 < my grid5 - 1
      \<and> xs grid5 \<le> 2 \<and> 2 < xs grid5 + xm grid5 \<and> ys grid5 \<le> 3 \<and> 3 < ys grid5 + ym grid5)
   \<and> plap_mem.FF (snd (FormFunctionLocal UExact grid5 plap_ctx plap_mem0)) 3 2 =
          0 + element_contribution UExact grid5 plap_ctx (au plap_mem0) 2 3 0
            + element_contribution UExact grid5 plap_ctx (au plap_mem0) (2 + 1) 3 1
            + element_contribution UExact grid5 plap_ctx (au plap_mem0) 2 (3 + 1) 3
            + element_contribution UExact grid5 plap_ctx (au plap_mem0) (2 + 1) (3 + 1) 2
   \<and> \<not> (xs grid5 \<le> 6 \<and> 6 < xs grid5 + xm grid5 \<and> ys grid5 \<le> 3 \<and> 3 < ys grid5 + ym grid5)
   \<and> plap_mem.FF (snd (FormFunctionLocal UExact grid5 plap_ctx plap_mem0)) 3 6 = 7"
proof -
  have h1: "0 < (2::int) \<and> 2 < mx grid5 - 1 \<and> 0 < (3::int) \<and> 3 < my grid5 - 1
      \<and> xs grid5 \<le> 2 \<and> 2 < xs grid5 + xm grid5 \<and> ys grid5 \<le> 3 \<and> 3 < ys grid5 + ym grid5"
    by (simp add: grid5_def)
  have h2: "\<not> (xs grid5 \<le> 6 \<and> 6 < xs grid5 + xm grid5 \<and> ys grid5 \<le> 3 \<and> 3 < ys grid5 + ym grid5)"
    by (simp add: grid5_def)
  have c1: "plap_mem.FF (snd (FormFunctionLocal UExact grid5 plap_ctx plap_mem0)) 3 2 =
          0 + element_contribution UExact grid5 plap_ctx (au plap_mem0) 2 3 0
            + element_contribution UExact grid5 plap_ctx (au plap_mem0) (2 + 1) 3 1
            + element_contribution UExact grid5 plap_ctx (au plap_mem0) 2 (3 + 1) 3
            + element_contribution UExact grid5 plap_ctx (au plap_mem0) (2 + 1) (3 + 1) 2"
    using interior_residual_four_elements [of 2 grid5 3 UExact plap_ctx plap_mem0] h1 by blast
  have "plap_mem.FF (snd (FormFunctionLocal UExact grid5 plap_ctx plap_mem0)) 3 6
          = plap_mem.FF plap_mem0 3 6"
    using interior_residual_four_elements [of 6 grid5 3 UExact plap_ctx plap_mem0] h2 by blast
  then have c2: "plap_mem.FF (snd (FormFunctionLocal UExact grid5 plap_ctx plap_mem0)) 3 6 = 7"
    by (simp add: plap_mem0_def)
  show ?thesis using h1 h2 c1 c2 by blast
qed

subsection \<open>C3: boundary residuals\<close>

text \<open>
  Claim C3, as the code has it. At a node \<^verbatim>\<open>(i,j)\<close> of the grid that lies on its boundary and
  that the calling process owns, \<^verbatim>\<open>FormFunctionLocal\<close> of the p-Laplacian returns
  \<^verbatim>\<open>au[j][i] - g\<close> for every iterate, with \<^verbatim>\<open>g\<close> the boundary function at the coordinates of
  the node, and \<^verbatim>\<open>FormFunctionLocal\<close> of the ice problem returns \<^verbatim>\<open>aHin[j][i]\<close> for every
  iterate with which the call returns 0, whatever the other entries of the iterate are:
  the later loops do not touch the entry. The ice call-back returns 0 for every iterate
  when the admissibility check is off. The claim as written, for every iterate, fails for
  the ice problem when the check is on: see the counterexample below.
\<close>

theorem boundary_residual_exact:
  assumes "i = 0 \<or> i = mx info - 1 \<or> j = 0 \<or> j = my info - 1"
    and "0 \<le> i" "i \<le> mx info - 1" "0 \<le> j" "j \<le> my info - 1"
    and "xs info \<le> i" "i < xs info + xm info" "ys info \<le> j" "j < ys info + ym info"
  shows "plap_mem.FF (snd (FormFunctionLocal BoundaryG info user m)) j i =
           au m j i - BoundaryG (real_of_int i * (1 / real_of_int (mx info - 1)))
                                (real_of_int j * (1 / real_of_int (my info - 1))) (alpha user)
         \<and> (fst (FormFunctionLocal_ice info user' m') = 0
              \<longrightarrow> ice_mem.FF (snd (FormFunctionLocal_ice info user' m')) j i = aHin m' j i)
         \<and> (\<not> check_admissible user' \<longrightarrow> fst (FormFunctionLocal_ice info user' m') = 0)"
proof -
  have nu: "\<not> owned_unknown info i j" using assms(1) by (auto simp add: owned_unknown_def)
  have "plap_mem.FF (snd (FormFunctionLocal BoundaryG info user m)) j i
      = clear_value BoundaryG info user (au m) j i"
    using assms(6-9) by (simp add: FormFunctionLocal_FF_not_unknown [OF nu])
  then have plap: "plap_mem.FF (snd (FormFunctionLocal BoundaryG info user m)) j i =
           au m j i - BoundaryG (real_of_int i * (1 / real_of_int (mx info - 1)))
                                (real_of_int j * (1 / real_of_int (my info - 1))) (alpha user)"
    using assms(1) by (simp only: clear_value_def if_True)
  have b: "on_boundary info i j" using assms(1) by (simp add: on_boundary_def)
  have d: "in_domain info i j" using assms(2-5) by (simp add: in_domain_def)
  have o: "owned info i j" using assms(6-9) by (simp add: owned_def)
  have ice: "ice_mem.FF (snd (FormFunctionLocal_ice info user' m')) j i = aHin m' j i"
    if "fst (FormFunctionLocal_ice info user' m') = 0"
  proof -
    from that have "\<not> inadmissible info user' (aHin m')"
      by (simp add: ice_code split: if_splits)
    then show ?thesis using o b d by (rule ice_ok_boundary)
  qed
  have off: "fst (FormFunctionLocal_ice info user' m') = 0" if "\<not> check_admissible user'"
    using that by (simp add: ice_code inadmissible_def)
  show ?thesis using plap ice off by blast
qed

theorem boundary_residual_exact_witness:
  "((4::int) = 0 \<or> 4 = mx grid5 - 1 \<or> (2::int) = 0 \<or> 2 = my grid5 - 1)
   \<and> (0::int) \<le> 4 \<and> 4 \<le> mx grid5 - 1 \<and> (0::int) \<le> 2 \<and> 2 \<le> my grid5 - 1
   \<and> xs grid5 \<le> 4 \<and> 4 < xs grid5 + xm grid5 \<and> ys grid5 \<le> 2 \<and> 2 < ys grid5 + ym grid5
   \<and> plap_mem.FF (snd (FormFunctionLocal UExact grid5 plap_ctx plap_mem0)) 2 4 = 6 - 1 / 8
   \<and> fst (FormFunctionLocal_ice grid5 (ice_ctx\<lparr> check_admissible := False \<rparr>) ice_mem_neg) = 0
   \<and> ice_mem.FF (snd (FormFunctionLocal_ice grid5 (ice_ctx\<lparr> check_admissible := False \<rparr>)
                        ice_mem_neg)) 2 4 = 1"
proof -
  have h: "(4::int) = 0 \<or> 4 = mx grid5 - 1 \<or> (2::int) = 0 \<or> 2 = my grid5 - 1"
      "(0::int) \<le> 4" "4 \<le> mx grid5 - 1" "(0::int) \<le> 2" "2 \<le> my grid5 - 1"
      "xs grid5 \<le> 4" "4 < xs grid5 + xm grid5" "ys grid5 \<le> 2" "2 < ys grid5 + ym grid5"
    by (simp_all add: grid5_def)
  note t = boundary_residual_exact [OF h, of UExact plap_ctx plap_mem0
             "ice_ctx\<lparr> check_admissible := False \<rparr>" ice_mem_neg]
  have off: "\<not> check_admissible (ice_ctx\<lparr> check_admissible := False \<rparr>)" by simp
  from t have "plap_mem.FF (snd (FormFunctionLocal UExact grid5 plap_ctx plap_mem0)) 2 4 =
       au plap_mem0 2 4 - UExact (real_of_int 4 * (1 / real_of_int (mx grid5 - 1)))
                                (real_of_int 2 * (1 / real_of_int (my grid5 - 1))) (alpha plap_ctx)"
    by blast
  then have c1: "plap_mem.FF (snd (FormFunctionLocal UExact grid5 plap_ctx plap_mem0)) 2 4 = 6 - 1 / 8"
    by (simp add: plap_mem0_def grid5_def plap_ctx_def UExact_def)
  from t off have c2: "fst (FormFunctionLocal_ice grid5 (ice_ctx\<lparr> check_admissible := False \<rparr>) ice_mem_neg) = 0"
    by blast
  from t c2 have "ice_mem.FF (snd (FormFunctionLocal_ice grid5 (ice_ctx\<lparr> check_admissible := False \<rparr>)
                        ice_mem_neg)) 2 4 = aHin ice_mem_neg 2 4"
    by blast
  then have c3: "ice_mem.FF (snd (FormFunctionLocal_ice grid5 (ice_ctx\<lparr> check_admissible := False \<rparr>)
                        ice_mem_neg)) 2 4 = 1"
    by (simp add: ice_mem_neg_def ice_mem0_def)
  show ?thesis using h c1 c2 c3 by blast
qed

text \<open>
  With the admissibility check on and the iterate negative at the interior node \<^verbatim>\<open>(2,2)\<close>
  of the 5 by 5 grid, the call leaves with code 1 when the first loop nest reaches that
  node. The owned boundary node \<^verbatim>\<open>(i,j) = (4,2)\<close> comes later in the same row: its residual
  is still the 7 that the array held, not \<^verbatim>\<open>aHin[2][4] = 1\<close>.
\<close>

theorem boundary_residual_error_counterexample:
  "check_admissible ice_ctx
   \<and> 4 = mx grid5 - 1 \<and> (0::int) \<le> 2 \<and> 2 \<le> my grid5 - 1
   \<and> xs grid5 \<le> 4 \<and> 4 < xs grid5 + xm grid5 \<and> ys grid5 \<le> 2 \<and> 2 < ys grid5 + ym grid5
   \<and> fst (FormFunctionLocal_ice grid5 ice_ctx ice_mem_neg) = 1
   \<and> aHin ice_mem_neg 2 4 = 1
   \<and> ice_mem.FF (snd (FormFunctionLocal_ice grid5 ice_ctx ice_mem_neg)) 2 4 = 7
   \<and> ice_mem.FF (snd (FormFunctionLocal_ice grid5 ice_ctx ice_mem_neg)) 2 4 \<noteq> aHin ice_mem_neg 2 4"
proof -
  have c: "check_admissible ice_ctx" by (simp add: ice_ctx_def)
  have r: "ys grid5 - 1 \<le> 2" "2 \<le> ys grid5 + ym grid5" "xs grid5 - 1 \<le> 2" "2 \<le> xs grid5 + xm grid5"
    by (simp_all add: grid5_def)
  have d: "in_domain grid5 2 2" by (simp add: in_domain_def grid5_def)
  have n: "aHin ice_mem_neg 2 2 < 0" by (simp add: ice_mem_neg_def)
  have f: "\<forall>K J. copied_before grid5 2 2 K J \<longrightarrow> 0 \<le> aHin ice_mem_neg K J"
    by (simp add: copied_before_def ice_mem_neg_def)
  have g: "4 = mx grid5 - 1" "(0::int) \<le> 2" "2 \<le> my grid5 - 1"
      "xs grid5 \<le> 4" "4 < xs grid5 + xm grid5" "ys grid5 \<le> 2" "2 < ys grid5 + ym grid5"
    by (simp_all add: grid5_def)
  have bad: "inadmissible grid5 ice_ctx (aHin ice_mem_neg)"
    using c r d n by (rule inadmissibleI)
  have code: "fst (FormFunctionLocal_ice grid5 ice_ctx ice_mem_neg) = 1"
    by (simp only: ice_code bad if_True)
  have a: "aHin ice_mem_neg 2 4 = 1" by (simp add: ice_mem_neg_def ice_mem0_def)
  have nc: "\<not> copied_before grid5 2 2 2 4" by (simp add: copied_before_def)
  have v: "ice_mem.FF (snd (FormFunctionLocal_ice grid5 ice_ctx ice_mem_neg)) 2 4 = 7"
    unfolding ice_error_state(1) [OF c r d n f]
    using nc by (simp add: ice_mem_neg_def ice_mem0_def)
  have ne: "ice_mem.FF (snd (FormFunctionLocal_ice grid5 ice_ctx ice_mem_neg)) 2 4
              \<noteq> aHin ice_mem_neg 2 4"
    by (simp only: v a)
  show ?thesis using c g code a v ne by blast
qed

subsection \<open>C6: the input iterate is not written\<close>

text \<open>
  Claim C6. \<^verbatim>\<open>FormObjectiveLocal\<close> and \<^verbatim>\<open>FormFunctionLocal\<close> of the p-Laplacian leave every
  entry of \<^verbatim>\<open>au\<close> as it was, and \<^verbatim>\<open>FormFunctionLocal\<close> of the ice problem leaves every entry
  of \<^verbatim>\<open>aHin\<close> as it was, also when it stops with the admissibility error. The objective
  writes only \<^verbatim>\<open>obj\<close>, the p-Laplacian residual writes only \<^verbatim>\<open>FF\<close>, and the zero boundary
  values of the ice problem are put into the copy \<^verbatim>\<open>aH\<close>: after a call that returns 0, the
  copy is 0 at every boundary node of the owned patch and its halo.
\<close>

theorem input_iterate_unchanged:
  "au (snd (FormObjectiveLocal BoundaryG info user others m)) = au m
   \<and> plap_mem.FF (snd (FormObjectiveLocal BoundaryG info user others m)) = plap_mem.FF m
   \<and> au (snd (FormFunctionLocal BoundaryG info user m)) = au m
   \<and> obj (snd (FormFunctionLocal BoundaryG info user m)) = obj m
   \<and> aHin (snd (FormFunctionLocal_ice info user' m')) = aHin m'
   \<and> (fst (FormFunctionLocal_ice info user' m') = 0
        \<and> ys info - 1 \<le> k \<and> k \<le> ys info + ym info \<and> xs info - 1 \<le> j \<and> j \<le> xs info + xm info
        \<and> 0 \<le> j \<and> j \<le> mx info - 1 \<and> 0 \<le> k \<and> k \<le> my info - 1
        \<and> (j = 0 \<or> j = mx info - 1 \<or> k = 0 \<or> k = my info - 1)
      \<longrightarrow> aH (snd (FormFunctionLocal_ice info user' m')) k j = 0)"
proof -
  have z: "aH (snd (FormFunctionLocal_ice info user' m')) k j = 0"
    if ok: "fst (FormFunctionLocal_ice info user' m') = 0"
      and r: "ys info - 1 \<le> k" "k \<le> ys info + ym info" "xs info - 1 \<le> j" "j \<le> xs info + xm info"
      and d: "0 \<le> j" "j \<le> mx info - 1" "0 \<le> k" "k \<le> my info - 1"
      and b: "j = 0 \<or> j = mx info - 1 \<or> k = 0 \<or> k = my info - 1"
  proof -
    from ok have adm: "\<not> inadmissible info user' (aHin m')"
      by (simp add: ice_code split: if_splits)
    have dom: "in_domain info j k" using d by (simp add: in_domain_def)
    have bd: "on_boundary info j k" using b by (simp add: on_boundary_def)
    show ?thesis by (simp only: ice_ok_aH [OF adm r dom] bd if_True)
  qed
  show ?thesis
    by (intro conjI impI)
       (simp_all only: FormObjectiveLocal_frame FormFunctionLocal_au FormFunctionLocal_obj ice_aHin z)
qed

theorem input_iterate_unchanged_witness:
  "au (snd (FormObjectiveLocal UExact grid5 plap_ctx 0 plap_mem0)) = (\<lambda>j i. real_of_int (i + j))
   \<and> au (snd (FormFunctionLocal UExact grid5 plap_ctx plap_mem0)) = (\<lambda>j i. real_of_int (i + j))
   \<and> aHin (snd (FormFunctionLocal_ice grid5 ice_ctx ice_mem0)) = (\<lambda>k j. 1)
   \<and> aHin (snd (FormFunctionLocal_ice grid5 ice_ctx ice_mem_neg)) 2 2 = - 1
   \<and> fst (FormFunctionLocal_ice grid5 ice_ctx ice_mem0) = 0
   \<and> ys grid5 - 1 \<le> 0 \<and> 0 \<le> ys grid5 + ym grid5 \<and> xs grid5 - 1 \<le> 3 \<and> 3 \<le> xs grid5 + xm grid5
   \<and> (0::int) \<le> 3 \<and> 3 \<le> mx grid5 - 1 \<and> (0::int) \<le> 0 \<and> 0 \<le> my grid5 - 1
   \<and> ((3::int) = 0 \<or> 3 = mx grid5 - 1 \<or> (0::int) = 0 \<or> 0 = my grid5 - 1)
   \<and> aH (snd (FormFunctionLocal_ice grid5 ice_ctx ice_mem0)) 0 3 = 0"
proof -
  note t1 = input_iterate_unchanged [of UExact grid5 plap_ctx 0 plap_mem0 ice_ctx ice_mem0 0 3]
  note t2 = input_iterate_unchanged [of UExact grid5 plap_ctx 0 plap_mem0 ice_ctx ice_mem_neg 0 3]
  have a1: "au (snd (FormObjectiveLocal UExact grid5 plap_ctx 0 plap_mem0)) = (\<lambda>j i. real_of_int (i + j))"
      "au (snd (FormFunctionLocal UExact grid5 plap_ctx plap_mem0)) = (\<lambda>j i. real_of_int (i + j))"
    using t1 by (simp_all add: plap_mem0_def)
  have a2: "aHin (snd (FormFunctionLocal_ice grid5 ice_ctx ice_mem0)) = (\<lambda>k j. 1)"
    using t1 by (simp add: ice_mem0_def)
  have a3: "aHin (snd (FormFunctionLocal_ice grid5 ice_ctx ice_mem_neg)) 2 2 = - 1"
    using t2 by (simp add: ice_mem_neg_def)
  have ok: "fst (FormFunctionLocal_ice grid5 ice_ctx ice_mem0) = 0"
    by (simp add: ice_code inadmissible_def ice_mem0_def)
  have r: "ys grid5 - 1 \<le> 0 \<and> 0 \<le> ys grid5 + ym grid5 \<and> xs grid5 - 1 \<le> 3 \<and> 3 \<le> xs grid5 + xm grid5
     \<and> (0::int) \<le> 3 \<and> 3 \<le> mx grid5 - 1 \<and> (0::int) \<le> 0 \<and> 0 \<le> my grid5 - 1
     \<and> ((3::int) = 0 \<or> 3 = mx grid5 - 1 \<or> (0::int) = 0 \<or> 0 = my grid5 - 1)"
    by (simp add: grid5_def)
  have z: "aH (snd (FormFunctionLocal_ice grid5 ice_ctx ice_mem0)) 0 3 = 0"
    using t1 ok r by blast
  show ?thesis using a1 a2 a3 ok r z by blast
qed

subsection \<open>C10: the nodal values of an element\<close>

text \<open>
  Claim C10. For every element \<^verbatim>\<open>(i,j)\<close> that the element loops of \<^verbatim>\<open>FormFunctionLocal\<close> visit,
  and for every element that the loops of \<^verbatim>\<open>FormObjectiveLocal\<close> visit on a patch that lies
  in the grid, the four values that \<^verbatim>\<open>GetUorGElement\<close> delivers are, corner by corner, the
  boundary function at the coordinates of the corner when the corner is on the boundary
  of the grid and the iterate at the corner otherwise. So two iterates that agree at the
  interior nodes give the same four values.
\<close>

theorem element_values_u_or_g:
  assumes "(i \<in> set [if xs info < 1 then 1 else xs info ..
                      if xs info + xm info > mx info - 1 then mx info - 1 else xs info + xm info]
            \<and> j \<in> set [if ys info < 1 then 1 else ys info ..
                         if ys info + ym info > my info - 1 then my info - 1 else ys info + ym info])
         \<or> (0 \<le> xs info \<and> xs info + xm info \<le> mx info \<and> 0 \<le> ys info \<and> ys info + ym info \<le> my info
            \<and> i \<in> set [xs info + 1 .. xs info + xm info - 1]
            \<and> j \<in> set [ys info + 1 .. ys info + ym info - 1])"
  shows "GetUorGElement BoundaryG info i j a al =
           [nodal_value BoundaryG info a al i j,
            nodal_value BoundaryG info a al (i - 1) j,
            nodal_value BoundaryG info a al (i - 1) (j - 1),
            nodal_value BoundaryG info a al i (j - 1)]
         \<and> ((\<forall>P Q. \<not> on_boundary info P Q \<longrightarrow> a' Q P = a Q P)
              \<longrightarrow> GetUorGElement BoundaryG info i j a' al = GetUorGElement BoundaryG info i j a al)"
proof -
  from assms have bi: "1 \<le> i" "i \<le> mx info - 1" and bj: "1 \<le> j" "j \<le> my info - 1"
    by (auto split: if_splits)
  define hx where "hx = 1 / real_of_int (mx info - 1)"
  define hy where "hy = 1 / real_of_int (my info - 1)"
  have sx: "real_of_int i * hx - hx = real_of_int (i - 1) * hx"
    by (simp add: algebra_simps)
  have sy: "real_of_int j * hy - hy = real_of_int (j - 1) * hy"
    by (simp add: algebra_simps)
  have c0: "(if i = mx info - 1 \<or> j = my info - 1
             then BoundaryG (real_of_int i * hx) (real_of_int j * hy) al else a j i)
            = nodal_value BoundaryG info a al i j" for a
    using bi bj by (auto simp add: nodal_value_def on_boundary_def hx_def hy_def)
  have c1: "(if i - 1 = 0 \<or> j = my info - 1
             then BoundaryG (real_of_int (i - 1) * hx) (real_of_int j * hy) al else a j (i - 1))
            = nodal_value BoundaryG info a al (i - 1) j" for a
    using bi bj by (auto simp add: nodal_value_def on_boundary_def hx_def hy_def)
  have c2: "(if i - 1 = 0 \<or> j - 1 = 0
             then BoundaryG (real_of_int (i - 1) * hx) (real_of_int (j - 1) * hy) al
             else a (j - 1) (i - 1))
            = nodal_value BoundaryG info a al (i - 1) (j - 1)" for a
    using bi bj by (auto simp add: nodal_value_def on_boundary_def hx_def hy_def)
  have c3: "(if i = mx info - 1 \<or> j - 1 = 0
             then BoundaryG (real_of_int i * hx) (real_of_int (j - 1) * hy) al else a (j - 1) i)
            = nodal_value BoundaryG info a al i (j - 1)" for a
    using bi bj by (auto simp add: nodal_value_def on_boundary_def hx_def hy_def)
  have eq: "GetUorGElement BoundaryG info i j a al =
           [nodal_value BoundaryG info a al i j,
            nodal_value BoundaryG info a al (i - 1) j,
            nodal_value BoundaryG info a al (i - 1) (j - 1),
            nodal_value BoundaryG info a al i (j - 1)]" for a
    unfolding GetUorGElement_def Let_def hx_def [symmetric] hy_def [symmetric] sx sy
    by (simp only: c0 c1 c2 c3)
  have ind: "nodal_value BoundaryG info a' al P Q = nodal_value BoundaryG info a al P Q"
    if "\<forall>P Q. \<not> on_boundary info P Q \<longrightarrow> a' Q P = a Q P" for P Q
    using that by (simp add: nodal_value_def)
  show ?thesis using eq [of a] eq [of a'] ind by simp
qed

theorem element_values_u_or_g_witness:
  "(4 \<in> set [if xs grid5 < 1 then 1 else xs grid5 ..
              if xs grid5 + xm grid5 > mx grid5 - 1 then mx grid5 - 1 else xs grid5 + xm grid5]
    \<and> 2 \<in> set [if ys grid5 < 1 then 1 else ys grid5 ..
                if ys grid5 + ym grid5 > my grid5 - 1 then my grid5 - 1 else ys grid5 + ym grid5])
   \<and> GetUorGElement UExact grid5 4 2 (au plap_mem0) 0 = [1 / 8, 5, 4, 1 / 32]
   \<and> (0 \<le> xs grid5 \<and> xs grid5 + xm grid5 \<le> mx grid5 \<and> 0 \<le> ys grid5 \<and> ys grid5 + ym grid5 \<le> my grid5
      \<and> 1 \<in> set [xs grid5 + 1 .. xs grid5 + xm grid5 - 1]
      \<and> 2 \<in> set [ys grid5 + 1 .. ys grid5 + ym grid5 - 1])
   \<and> GetUorGElement UExact grid5 1 2 (\<lambda>j i. if i = 0 then 9 else real_of_int (i + j)) 0
       = GetUorGElement UExact grid5 1 2 (au plap_mem0) 0"
proof -
  have h1: "(4 \<in> set [if xs grid5 < 1 then 1 else xs grid5 ..
              if xs grid5 + xm grid5 > mx grid5 - 1 then mx grid5 - 1 else xs grid5 + xm grid5]
    \<and> 2 \<in> set [if ys grid5 < 1 then 1 else ys grid5 ..
                if ys grid5 + ym grid5 > my grid5 - 1 then my grid5 - 1 else ys grid5 + ym grid5])"
    by (simp add: grid5_def)
  have h2: "(0 \<le> xs grid5 \<and> xs grid5 + xm grid5 \<le> mx grid5 \<and> 0 \<le> ys grid5 \<and> ys grid5 + ym grid5 \<le> my grid5
      \<and> 1 \<in> set [xs grid5 + 1 .. xs grid5 + xm grid5 - 1]
      \<and> 2 \<in> set [ys grid5 + 1 .. ys grid5 + ym grid5 - 1])"
    by (simp add: grid5_def)
  have "GetUorGElement UExact grid5 4 2 (au plap_mem0) 0 =
           [nodal_value UExact grid5 (au plap_mem0) 0 4 2,
            nodal_value UExact grid5 (au plap_mem0) 0 (4 - 1) 2,
            nodal_value UExact grid5 (au plap_mem0) 0 (4 - 1) (2 - 1),
            nodal_value UExact grid5 (au plap_mem0) 0 4 (2 - 1)]"
    using element_values_u_or_g [of 4 grid5 2 UExact "au plap_mem0" 0] h1 by blast
  then have c1: "GetUorGElement UExact grid5 4 2 (au plap_mem0) 0 = [1 / 8, 5, 4, 1 / 32]"
    by (simp add: nodal_value_def on_boundary_def grid5_def plap_mem0_def UExact_def)
  have agree: "\<forall>P Q. \<not> on_boundary grid5 P Q
      \<longrightarrow> (\<lambda>j i. if i = 0 then 9 else real_of_int (i + j)) Q P = au plap_mem0 Q P"
    by (simp add: on_boundary_def plap_mem0_def)
  have c2: "GetUorGElement UExact grid5 1 2 (\<lambda>j i. if i = 0 then 9 else real_of_int (i + j)) 0
       = GetUorGElement UExact grid5 1 2 (au plap_mem0) 0"
    using element_values_u_or_g [of 1 grid5 2 UExact "au plap_mem0" 0
            "\<lambda>j i. if i = 0 then 9 else real_of_int (i + j)"] h2 agree
    by blast
  show ?thesis using h1 h2 c1 c2 by blast
qed

subsection \<open>C4: the flux of the shallow ice approximation\<close>

text \<open>
  Claim C4. For all gradients \<^verbatim>\<open>gH\<close> and \<^verbatim>\<open>gb\<close>, thicknesses \<^verbatim>\<open>H\<close> and \<^verbatim>\<open>Hup\<close> and both
  directions, the value that \<^verbatim>\<open>SIAflux\<close> stores through \<^verbatim>\<open>q\<close> is the flux of the
  specification, \<^verbatim>\<open>- D * gH.x + W.x * |Hup|^(n+2)\<close> in direction \<^verbatim>\<open>x\<close> and the same with \<^verbatim>\<open>y\<close>
  otherwise, with the slope factor, the diffusivity and the pseudo-velocity of the
  specification; the value stored through a non-null \<^verbatim>\<open>D\<close> is that diffusivity.
\<close>

theorem SIAflux_is_spec_flux:
  "SIAflux gH gb H Hup xdir D_ptr True user =
     Some (if D_ptr then Some (spec_D user (spec_sigma user gH gb) H) else None,
           Some (spec_flux user gH gb H Hup xdir))"
  by (simp add: SIAflux_def sigma_def DCS_def W_def spec_sigma_def spec_D_def spec_flux_def
                Let_def power2_eq_square)

subsection \<open>C5: the admissibility check\<close>

text \<open>
  Claim C5. With \<^verbatim>\<open>check_admissible\<close> on, a call of the ice \<^verbatim>\<open>FormFunctionLocal\<close> whose iterate
  is negative at some node \<^verbatim>\<open>(j,k)\<close> of the grid in the owned patch or its halo returns the
  error code 1 and computes nothing further. The iterate, the bed array and the flux
  arrays are as they were, and so is the residual at every node that is not on the
  boundary of the grid; and there is a first negative node in the order of the loop.
  When \<^verbatim>\<open>(j,k)\<close> is that first negative node, the memory is exactly what the iterations
  before it left: the residual holds \<^verbatim>\<open>aHin\<close> at the owned boundary nodes handled before
  \<^verbatim>\<open>(j,k)\<close> and is as it was everywhere else, and the copy \<^verbatim>\<open>aH\<close> holds the copied value at
  the nodes handled before \<^verbatim>\<open>(j,k)\<close> and is as it was everywhere else. When the iterate is
  non-negative at every node of the grid in the patch and halo the call returns 0.
\<close>

theorem admissibility_check:
  "(check_admissible user
      \<and> ys info - 1 \<le> k \<and> k \<le> ys info + ym info \<and> xs info - 1 \<le> j \<and> j \<le> xs info + xm info
      \<and> 0 \<le> j \<and> j \<le> mx info - 1 \<and> 0 \<le> k \<and> k \<le> my info - 1
      \<and> aHin m k j < 0
    \<longrightarrow> fst (FormFunctionLocal_ice info user m) = 1
        \<and> aHin (snd (FormFunctionLocal_ice info user m)) = aHin m
        \<and> ab (snd (FormFunctionLocal_ice info user m)) = ab m
        \<and> aqquad (snd (FormFunctionLocal_ice info user m)) = aqquad m
        \<and> (\<forall>K J. \<not> (J = 0 \<or> J = mx info - 1 \<or> K = 0 \<or> K = my info - 1)
              \<longrightarrow> ice_mem.FF (snd (FormFunctionLocal_ice info user m)) K J = ice_mem.FF m K J)
        \<and> (\<exists>k0 j0. ys info - 1 \<le> k0 \<and> k0 \<le> ys info + ym info
              \<and> xs info - 1 \<le> j0 \<and> j0 \<le> xs info + xm info
              \<and> in_domain info j0 k0 \<and> aHin m k0 j0 < 0
              \<and> (\<forall>K J. copied_before info k0 j0 K J \<longrightarrow> 0 \<le> aHin m K J)))
   \<and> (check_admissible user
      \<and> ys info - 1 \<le> k \<and> k \<le> ys info + ym info \<and> xs info - 1 \<le> j \<and> j \<le> xs info + xm info
      \<and> 0 \<le> j \<and> j \<le> mx info - 1 \<and> 0 \<le> k \<and> k \<le> my info - 1
      \<and> aHin m k j < 0
      \<and> (\<forall>K J. copied_before info k j K J \<longrightarrow> 0 \<le> aHin m K J)
    \<longrightarrow> (\<forall>K J.
          ice_mem.FF (snd (FormFunctionLocal_ice info user m)) K J =
            (if copied_before info k j K J \<and> on_boundary info J K \<and> owned info J K
             then aHin m K J else ice_mem.FF m K J)
          \<and> aH (snd (FormFunctionLocal_ice info user m)) K J =
            (if copied_before info k j K J
             then (if on_boundary info J K then 0 else aHin m K J) else aH m K J)))
   \<and> ((\<forall>k j. ys info - 1 \<le> k \<and> k \<le> ys info + ym info
              \<and> xs info - 1 \<le> j \<and> j \<le> xs info + xm info
              \<and> 0 \<le> j \<and> j \<le> mx info - 1 \<and> 0 \<le> k \<and> k \<le> my info - 1
            \<longrightarrow> 0 \<le> aHin m k j)
    \<longrightarrow> fst (FormFunctionLocal_ice info user m) = 0)"
proof (intro conjI impI)
  assume h: "check_admissible user
      \<and> ys info - 1 \<le> k \<and> k \<le> ys info + ym info \<and> xs info - 1 \<le> j \<and> j \<le> xs info + xm info
      \<and> 0 \<le> j \<and> j \<le> mx info - 1 \<and> 0 \<le> k \<and> k \<le> my info - 1
      \<and> aHin m k j < 0"
  then have c: "check_admissible user"
    and r: "ys info - 1 \<le> k" "k \<le> ys info + ym info" "xs info - 1 \<le> j" "j \<le> xs info + xm info"
    and d: "in_domain info j k" and n: "aHin m k j < 0"
    by (simp_all add: in_domain_def)
  have bad: "inadmissible info user (aHin m)"
    using c r d n by (rule inadmissibleI)
  show "fst (FormFunctionLocal_ice info user m) = 1"
    by (simp only: ice_code bad if_True)
  show "aHin (snd (FormFunctionLocal_ice info user m)) = aHin m"
    by (rule ice_aHin)
  show "ab (snd (FormFunctionLocal_ice info user m)) = ab m"
    by (simp only: ice_error [OF bad] copy_frame)
  show "aqquad (snd (FormFunctionLocal_ice info user m)) = aqquad m"
    by (simp only: ice_error [OF bad] copy_frame)
  show "\<forall>K J. \<not> (J = 0 \<or> J = mx info - 1 \<or> K = 0 \<or> K = my info - 1)
              \<longrightarrow> ice_mem.FF (snd (FormFunctionLocal_ice info user m)) K J = ice_mem.FF m K J"
  proof (intro allI impI)
    fix K J
    assume "\<not> (J = 0 \<or> J = mx info - 1 \<or> K = 0 \<or> K = my info - 1)"
    then have nb: "\<not> on_boundary info J K" by (simp add: on_boundary_def)
    show "ice_mem.FF (snd (FormFunctionLocal_ice info user m)) K J = ice_mem.FF m K J"
      using copy_FF_any [of info user "[ys info - 1 .. ys info + ym info]"
                           "[xs info - 1 .. xs info + xm info]" m K J] nb
      by (simp only: ice_error [OF bad]) blast
  qed
  show "\<exists>k0 j0. ys info - 1 \<le> k0 \<and> k0 \<le> ys info + ym info
              \<and> xs info - 1 \<le> j0 \<and> j0 \<le> xs info + xm info
              \<and> in_domain info j0 k0 \<and> aHin m k0 j0 < 0
              \<and> (\<forall>K J. copied_before info k0 j0 K J \<longrightarrow> 0 \<le> aHin m K J)"
    using r d n by (rule first_negative_exists)
next
  assume h: "check_admissible user
      \<and> ys info - 1 \<le> k \<and> k \<le> ys info + ym info \<and> xs info - 1 \<le> j \<and> j \<le> xs info + xm info
      \<and> 0 \<le> j \<and> j \<le> mx info - 1 \<and> 0 \<le> k \<and> k \<le> my info - 1
      \<and> aHin m k j < 0
      \<and> (\<forall>K J. copied_before info k j K J \<longrightarrow> 0 \<le> aHin m K J)"
  then have c: "check_admissible user"
    and r: "ys info - 1 \<le> k" "k \<le> ys info + ym info" "xs info - 1 \<le> j" "j \<le> xs info + xm info"
    and d: "in_domain info j k" and n: "aHin m k j < 0"
    and f: "\<forall>K J. copied_before info k j K J \<longrightarrow> 0 \<le> aHin m K J"
    by (simp_all add: in_domain_def)
  show "\<forall>K J.
          ice_mem.FF (snd (FormFunctionLocal_ice info user m)) K J =
            (if copied_before info k j K J \<and> on_boundary info J K \<and> owned info J K
             then aHin m K J else ice_mem.FF m K J)
          \<and> aH (snd (FormFunctionLocal_ice info user m)) K J =
            (if copied_before info k j K J
             then (if on_boundary info J K then 0 else aHin m K J) else aH m K J)"
    using ice_error_state [OF c r d n f] by blast
next
  assume a: "\<forall>k j. ys info - 1 \<le> k \<and> k \<le> ys info + ym info
              \<and> xs info - 1 \<le> j \<and> j \<le> xs info + xm info
              \<and> 0 \<le> j \<and> j \<le> mx info - 1 \<and> 0 \<le> k \<and> k \<le> my info - 1
            \<longrightarrow> 0 \<le> aHin m k j"
  have "\<not> inadmissible info user (aHin m)"
  proof
    assume "inadmissible info user (aHin m)"
    then obtain k' j' where "k' \<in> set [ys info - 1 .. ys info + ym info]"
        "j' \<in> set [xs info - 1 .. xs info + xm info]" "in_domain info j' k'" "aHin m k' j' < 0"
      by (auto simp add: inadmissible_def)
    then have "ys info - 1 \<le> k' \<and> k' \<le> ys info + ym info
              \<and> xs info - 1 \<le> j' \<and> j' \<le> xs info + xm info
              \<and> 0 \<le> j' \<and> j' \<le> mx info - 1 \<and> 0 \<le> k' \<and> k' \<le> my info - 1" "aHin m k' j' < 0"
      by (simp_all add: in_domain_def)
    with a show False by fastforce
  qed
  then show "fst (FormFunctionLocal_ice info user m) = 0"
    by (simp only: ice_code if_False)
qed

theorem admissibility_check_witness:
  "(check_admissible ice_ctx
      \<and> ys grid5 - 1 \<le> 2 \<and> 2 \<le> ys grid5 + ym grid5 \<and> xs grid5 - 1 \<le> 2 \<and> 2 \<le> xs grid5 + xm grid5
      \<and> (0::int) \<le> 2 \<and> 2 \<le> mx grid5 - 1 \<and> (0::int) \<le> 2 \<and> 2 \<le> my grid5 - 1
      \<and> aHin ice_mem_neg 2 2 < 0)
   \<and> fst (FormFunctionLocal_ice grid5 ice_ctx ice_mem_neg) = 1
   \<and> aqquad (snd (FormFunctionLocal_ice grid5 ice_ctx ice_mem_neg)) = (\<lambda>c k j. 7)
   \<and> ice_mem.FF (snd (FormFunctionLocal_ice grid5 ice_ctx ice_mem_neg)) 1 1 = 7
   \<and> ice_mem.FF (snd (FormFunctionLocal_ice grid5 ice_ctx ice_mem_neg)) 0 3 = 1
   \<and> ice_mem.FF (snd (FormFunctionLocal_ice grid5 ice_ctx ice_mem_neg)) 2 0 = 1
   \<and> ice_mem.FF (snd (FormFunctionLocal_ice grid5 ice_ctx ice_mem_neg)) 2 4 = 7
   \<and> ice_mem.FF (snd (FormFunctionLocal_ice grid5 ice_ctx ice_mem_neg)) 4 2 = 7
   \<and> aH (snd (FormFunctionLocal_ice grid5 ice_ctx ice_mem_neg)) 0 3 = 0
   \<and> aH (snd (FormFunctionLocal_ice grid5 ice_ctx ice_mem_neg)) 1 1 = 1
   \<and> aH (snd (FormFunctionLocal_ice grid5 ice_ctx ice_mem_neg)) 2 2 = 7
   \<and> aH (snd (FormFunctionLocal_ice grid5 ice_ctx ice_mem_neg)) 2 3 = 7
   \<and> aHin ice_mem0 = (\<lambda>k j. 1)
   \<and> fst (FormFunctionLocal_ice grid5 ice_ctx ice_mem0) = 0"
proof -
  have h1: "check_admissible ice_ctx
      \<and> ys grid5 - 1 \<le> 2 \<and> 2 \<le> ys grid5 + ym grid5 \<and> xs grid5 - 1 \<le> 2 \<and> 2 \<le> xs grid5 + xm grid5
      \<and> (0::int) \<le> 2 \<and> 2 \<le> mx grid5 - 1 \<and> (0::int) \<le> 2 \<and> 2 \<le> my grid5 - 1
      \<and> aHin ice_mem_neg 2 2 < 0"
    by (simp add: ice_ctx_def grid5_def ice_mem_neg_def)
  have first: "\<forall>K J. copied_before grid5 2 2 K J \<longrightarrow> 0 \<le> aHin ice_mem_neg K J"
    by (simp add: copied_before_def ice_mem_neg_def)
  have h2: "\<forall>k j. ys grid5 - 1 \<le> k \<and> k \<le> ys grid5 + ym grid5
              \<and> xs grid5 - 1 \<le> j \<and> j \<le> xs grid5 + xm grid5
              \<and> 0 \<le> j \<and> j \<le> mx grid5 - 1 \<and> 0 \<le> k \<and> k \<le> my grid5 - 1
            \<longrightarrow> 0 \<le> aHin ice_mem0 k j"
    by (simp add: ice_mem0_def)
  note t1 = admissibility_check [of ice_ctx grid5 2 2 ice_mem_neg]
  note t2 = admissibility_check [of ice_ctx grid5 2 2 ice_mem0]
  from t1 h1 have e: "fst (FormFunctionLocal_ice grid5 ice_ctx ice_mem_neg) = 1"
      "aqquad (snd (FormFunctionLocal_ice grid5 ice_ctx ice_mem_neg)) = aqquad ice_mem_neg"
      "\<forall>K J. \<not> (J = 0 \<or> J = mx grid5 - 1 \<or> K = 0 \<or> K = my grid5 - 1)
              \<longrightarrow> ice_mem.FF (snd (FormFunctionLocal_ice grid5 ice_ctx ice_mem_neg)) K J
                  = ice_mem.FF ice_mem_neg K J"
    by blast+
  from t1 h1 first have st: "\<forall>K J.
          ice_mem.FF (snd (FormFunctionLocal_ice grid5 ice_ctx ice_mem_neg)) K J =
            (if copied_before grid5 2 2 K J \<and> on_boundary grid5 J K \<and> owned grid5 J K
             then aHin ice_mem_neg K J else ice_mem.FF ice_mem_neg K J)
          \<and> aH (snd (FormFunctionLocal_ice grid5 ice_ctx ice_mem_neg)) K J =
            (if copied_before grid5 2 2 K J
             then (if on_boundary grid5 J K then 0 else aHin ice_mem_neg K J)
             else aH ice_mem_neg K J)"
    by blast
  have nb: "\<not> ((1::int) = 0 \<or> 1 = mx grid5 - 1 \<or> (1::int) = 0 \<or> 1 = my grid5 - 1)"
    by (simp add: grid5_def)
  from e(3) nb have "ice_mem.FF (snd (FormFunctionLocal_ice grid5 ice_ctx ice_mem_neg)) 1 1
                  = ice_mem.FF ice_mem_neg 1 1"
    by blast
  then have c1: "ice_mem.FF (snd (FormFunctionLocal_ice grid5 ice_ctx ice_mem_neg)) 1 1 = 7"
    by (simp add: ice_mem_neg_def ice_mem0_def)
  from e(2) have c2: "aqquad (snd (FormFunctionLocal_ice grid5 ice_ctx ice_mem_neg)) = (\<lambda>c k j. 7)"
    by (simp add: ice_mem_neg_def ice_mem0_def)
  note q = st [THEN spec, THEN spec]
  note qF = q [THEN conjunct1] and qH = q [THEN conjunct2]
  have f1: "ice_mem.FF (snd (FormFunctionLocal_ice grid5 ice_ctx ice_mem_neg)) 0 3 = 1"
      "ice_mem.FF (snd (FormFunctionLocal_ice grid5 ice_ctx ice_mem_neg)) 2 0 = 1"
      "ice_mem.FF (snd (FormFunctionLocal_ice grid5 ice_ctx ice_mem_neg)) 2 4 = 7"
      "ice_mem.FF (snd (FormFunctionLocal_ice grid5 ice_ctx ice_mem_neg)) 4 2 = 7"
    unfolding qF
    by (simp_all add: copied_before_def in_domain_def on_boundary_def owned_def grid5_def
                      ice_mem_neg_def ice_mem0_def)
  have f2: "aH (snd (FormFunctionLocal_ice grid5 ice_ctx ice_mem_neg)) 0 3 = 0"
      "aH (snd (FormFunctionLocal_ice grid5 ice_ctx ice_mem_neg)) 1 1 = 1"
      "aH (snd (FormFunctionLocal_ice grid5 ice_ctx ice_mem_neg)) 2 2 = 7"
      "aH (snd (FormFunctionLocal_ice grid5 ice_ctx ice_mem_neg)) 2 3 = 7"
    unfolding qH
    by (simp_all add: copied_before_def in_domain_def on_boundary_def grid5_def
                      ice_mem_neg_def ice_mem0_def)
  from t2 h2 have c3: "fst (FormFunctionLocal_ice grid5 ice_ctx ice_mem0) = 0"
    by blast
  have h3: "aHin ice_mem0 = (\<lambda>k j. 1)" by (simp add: ice_mem0_def)
  show ?thesis using h1 h3 e(1) c1 c2 f1 f2 c3 by blast
qed

subsection \<open>C9: configuration errors\<close>

text \<open>
  Claim C9. When the option database answers every call of \<^verbatim>\<open>ConfigureCtx\<close> with success,
  \<^verbatim>\<open>ConfigureCtx\<close> fails exactly when the exponent \<^verbatim>\<open>p\<close> in force (the option, or 4) is below 1
  or the quadrature degree in force (the option, or 2) is not 1, 2 or 3. The option block
  of the ice program fails when the exponent \<^verbatim>\<open>n_ice\<close> in force (the option, or 3) is at
  most 1. No call-back looks at these parameters again: the residual and the objective of
  the p-Laplacian return 0 for every context, and the ice residual returns 0 for every
  context with the admissibility check off.
\<close>

theorem configuration_errors_at_setup:
  "(plap_Begin opts = 0 \<and> fst (plap_p opts) = 0 \<and> fst (plap_eps opts) = 0
      \<and> fst (plap_quaddegree opts) = 0 \<and> plap_End opts = 0
    \<longrightarrow> (fst (ConfigureCtx opts user0) \<noteq> 0)
          = ((case snd (plap_p opts) of None \<Rightarrow> 4 | Some v \<Rightarrow> v) < 1
             \<or> (case snd (plap_quaddegree opts) of None \<Rightarrow> 2 | Some v \<Rightarrow> v) < 1
             \<or> (case snd (plap_quaddegree opts) of None \<Rightarrow> 2 | Some v \<Rightarrow> v) > 3))
   \<and> ((case snd (ice_n iopts) of None \<Rightarrow> 3 | Some v \<Rightarrow> v) \<le> 1
    \<longrightarrow> fst (main_options iopts iuser0) \<noteq> 0)
   \<and> fst (FormFunctionLocal BoundaryG info user m) = 0
   \<and> fst (FormObjectiveLocal BoundaryG info user others m) = 0
   \<and> (\<not> check_admissible iuser \<longrightarrow> fst (FormFunctionLocal_ice info iuser im) = 0)"
proof (intro conjI impI)
  assume "plap_Begin opts = 0 \<and> fst (plap_p opts) = 0 \<and> fst (plap_eps opts) = 0
      \<and> fst (plap_quaddegree opts) = 0 \<and> plap_End opts = 0"
  then show "(fst (ConfigureCtx opts user0) \<noteq> 0)
          = ((case snd (plap_p opts) of None \<Rightarrow> 4 | Some v \<Rightarrow> v) < 1
             \<or> (case snd (plap_quaddegree opts) of None \<Rightarrow> 2 | Some v \<Rightarrow> v) < 1
             \<or> (case snd (plap_quaddegree opts) of None \<Rightarrow> 2 | Some v \<Rightarrow> v) > 3)"
    by (simp add: ConfigureCtx_def PetscOptionsGet_def Let_def split: option.splits)
next
  assume n: "(case snd (ice_n iopts) of None \<Rightarrow> 3 | Some v \<Rightarrow> v) \<le> 1"
  show "fst (main_options iopts iuser0) \<noteq> 0"
    using n by (simp add: main_options_def PetscOptionsGet_def Let_def split: option.splits)
next
  show "fst (FormFunctionLocal BoundaryG info user m) = 0"
    by (simp add: FormFunctionLocal_def Let_def)
  show "fst (FormObjectiveLocal BoundaryG info user others m) = 0"
    by (simp add: FormObjectiveLocal_def Let_def)
next
  assume "\<not> check_admissible iuser"
  then show "fst (FormFunctionLocal_ice info iuser im) = 0"
    by (simp add: ice_code inadmissible_def)
qed

theorem configuration_errors_at_setup_witness:
  "(plap_Begin plap_options0 = 0 \<and> fst (plap_p plap_options0) = 0 \<and> fst (plap_eps plap_options0) = 0
      \<and> fst (plap_quaddegree plap_options0) = 0 \<and> plap_End plap_options0 = 0)
   \<and> fst (ConfigureCtx plap_options0 plap_ctx) \<noteq> 0
   \<and> (plap_Begin plap_options_none = 0 \<and> fst (plap_p plap_options_none) = 0
      \<and> fst (plap_eps plap_options_none) = 0
      \<and> fst (plap_quaddegree plap_options_none) = 0 \<and> plap_End plap_options_none = 0)
   \<and> fst (ConfigureCtx plap_options_none plap_ctx) = 0
   \<and> (case snd (ice_n ice_options0) of None \<Rightarrow> 3 | Some v \<Rightarrow> v) \<le> (1::real)
   \<and> fst (main_options ice_options0 ice_ctx) \<noteq> 0
   \<and> \<not> check_admissible (ice_ctx\<lparr> check_admissible := False \<rparr>)
   \<and> fst (FormFunctionLocal_ice grid5 (ice_ctx\<lparr> check_admissible := False \<rparr>) ice_mem_neg) = 0"
proof -
  have h1: "plap_Begin plap_options0 = 0 \<and> fst (plap_p plap_options0) = 0
      \<and> fst (plap_eps plap_options0) = 0
      \<and> fst (plap_quaddegree plap_options0) = 0 \<and> plap_End plap_options0 = 0"
    by (simp add: plap_options0_def)
  have h2: "plap_Begin plap_options_none = 0 \<and> fst (plap_p plap_options_none) = 0
      \<and> fst (plap_eps plap_options_none) = 0
      \<and> fst (plap_quaddegree plap_options_none) = 0 \<and> plap_End plap_options_none = 0"
    by (simp add: plap_options_none_def)
  have h3: "(case snd (ice_n ice_options0) of None \<Rightarrow> 3 | Some v \<Rightarrow> v) \<le> (1::real)"
    by (simp add: ice_options0_def)
  have h4: "\<not> check_admissible (ice_ctx\<lparr> check_admissible := False \<rparr>)"
    by simp
  note t1 = configuration_errors_at_setup [of plap_options0 plap_ctx ice_options0 ice_ctx
              UExact grid5 plap_ctx plap_mem0 0 "ice_ctx\<lparr> check_admissible := False \<rparr>"
              ice_mem_neg]
  note t2 = configuration_errors_at_setup [of plap_options_none plap_ctx ice_options0 ice_ctx
              UExact grid5 plap_ctx plap_mem0 0 "ice_ctx\<lparr> check_admissible := False \<rparr>"
              ice_mem_neg]
  from t1 h1 have "(fst (ConfigureCtx plap_options0 plap_ctx) \<noteq> 0)
          = ((case snd (plap_p plap_options0) of None \<Rightarrow> 4 | Some v \<Rightarrow> v) < 1
             \<or> (case snd (plap_quaddegree plap_options0) of None \<Rightarrow> 2 | Some v \<Rightarrow> v) < 1
             \<or> (case snd (plap_quaddegree plap_options0) of None \<Rightarrow> 2 | Some v \<Rightarrow> v) > 3)"
    by blast
  then have c1: "fst (ConfigureCtx plap_options0 plap_ctx) \<noteq> 0"
    by (simp add: plap_options0_def)
  from t2 h2 have "(fst (ConfigureCtx plap_options_none plap_ctx) \<noteq> 0)
          = ((case snd (plap_p plap_options_none) of None \<Rightarrow> 4 | Some v \<Rightarrow> v) < 1
             \<or> (case snd (plap_quaddegree plap_options_none) of None \<Rightarrow> 2 | Some v \<Rightarrow> v) < 1
             \<or> (case snd (plap_quaddegree plap_options_none) of None \<Rightarrow> 2 | Some v \<Rightarrow> v) > 3)"
    by blast
  then have c2: "fst (ConfigureCtx plap_options_none plap_ctx) = 0"
    by (simp add: plap_options_none_def)
  from t1 h3 have c3: "fst (main_options ice_options0 ice_ctx) \<noteq> 0"
    by blast
  from t1 h4 have c4: "fst (FormFunctionLocal_ice grid5 (ice_ctx\<lparr> check_admissible := False \<rparr>)
                             ice_mem_neg) = 0"
    by blast
  show ?thesis using h1 h2 h3 h4 c1 c2 c3 c4 by blast
qed

subsection \<open>C2: the fluxes on shared control-volume faces cancel\<close>



subsection \<open>C8: the bed elevation read by the flux loop\<close>

text \<open>
  Claim C8 says that, outside verification mode, every entry of \<^verbatim>\<open>ab\<close> that the flux loop
  reads has been written by \<^verbatim>\<open>FormBedLocal\<close> with the sum of sines. The code does not do
  that: \<^verbatim>\<open>FormBedLocal\<close> skips the nodes with \<^verbatim>\<open>j >= mx-1\<close> or \<^verbatim>\<open>k >= my-1\<close>, so the last
  column and the last row of \<^verbatim>\<open>ab\<close> keep what the work vector held. On the default grid of
  5 by 5 nodes on one process, element \<^verbatim>\<open>(j,k) = (3,0)\<close> passes the test of the flux loop,
  its bed gradient reads \<^verbatim>\<open>ab[0][4]\<close>, and after the call that entry is still the 1 that the
  work array held, while the sum of sines at that node is 0.
\<close>

theorem bed_last_column_not_written:
  "\<not> verif ice_ctx
   \<and> fst (FormFunctionLocal_ice grid5 ice_ctx ice_mem0) = 0
   \<and> 3 \<in> set [xs grid5 - 1 .. xs grid5 + xm grid5 - 1]
   \<and> 0 \<in> set [ys grid5 - 1 .. ys grid5 + ym grid5 - 1]
   \<and> \<not> ((3::int) < 0 \<or> 3 \<ge> mx grid5 - 1 \<or> (0::int) < 0 \<or> 0 \<ge> my grid5 - 1)
   \<and> x (gradfatptArray 3 0 (locx ! 0) (locy ! 0) 1 1 (\<lambda>k j. if k = 0 \<and> j = 4 then 1 else 0)) = 3 / 4
   \<and> ab ice_mem0 0 4 = 1
   \<and> ab (snd (FormFunctionLocal_ice grid5 ice_ctx ice_mem0)) 0 4 = 1
   \<and> bed_value grid5 ice_ctx 4 0 = 0"
proof -
  have v: "\<not> verif ice_ctx" by (simp add: ice_ctx_def)
  have ok: "fst (FormFunctionLocal_ice grid5 ice_ctx ice_mem0) = 0"
    by (simp add: ice_code inadmissible_def ice_mem0_def)
  have el: "3 \<in> set [xs grid5 - 1 .. xs grid5 + xm grid5 - 1]"
      "0 \<in> set [ys grid5 - 1 .. ys grid5 + ym grid5 - 1]"
      "\<not> ((3::int) < 0 \<or> 3 \<ge> mx grid5 - 1 \<or> (0::int) < 0 \<or> 0 \<ge> my grid5 - 1)"
    by (simp_all add: grid5_def)
  have rd: "x (gradfatptArray 3 0 (locx ! 0) (locy ! 0) 1 1 (\<lambda>k j. if k = 0 \<and> j = 4 then 1 else 0)) = 3 / 4"
    by (simp add: gradfatptArray_def gradfatpt_def Let_def gx_def gy_def locx_def locy_def)
  have a0: "ab ice_mem0 0 4 = 1" by (simp add: ice_mem0_def)
  have nb: "\<not> bed_node grid5 4 0" by (simp add: bed_node_def grid5_def)
  have "ab (snd (FormFunctionLocal_ice grid5 ice_ctx ice_mem0)) 0 4
        = FormBedLocal grid5 1 (ab ice_mem0) ice_ctx 0 4"
    by (simp only: ice_ab [OF ok] v if_False)
  also have "\<dots> = ab ice_mem0 0 4"
    using nb by (simp only: FormBedLocal_at simp_thms if_False)
  finally have a1: "ab (snd (FormFunctionLocal_ice grid5 ice_ctx ice_mem0)) 0 4 = 1"
    using a0 by simp
  have "[0..<4] = [0, 1, 2, 3::nat]" by (simp add: upt_rec)
  then have bv: "bed_value grid5 ice_ctx 4 0 = 0"
    by (simp add: bed_value_def FormBedLocal_b_def)
  show ?thesis using v ok el rd a0 a1 bv by blast
qed


end
